theory Spec2Isabelle
  imports Main
begin

section \<open>Values of the JavaScript platform\<close>

text \<open>
  The credential module (src/unnamed/part_000, lines 1-141) is JavaScript that runs in a
  browser.  Its own code is embedded function by function below; the built-ins it calls
  (\<open>JSON\<close>, \<open>Date\<close>, \<open>localStorage\<close>, \<open>setTimeout\<close>, \<open>fetch\<close>, \<open>console\<close>) are
  modelled as far as the module can observe them.  What the model leaves out:
  \<^item> numbers that are not integers (time values in milliseconds are integers);
  \<^item> \<open>localStorage.setItem\<close> failing for lack of space;
  \<^item> a parsed object whose own \<open>toString\<close> or \<open>valueOf\<close> property hides the inherited
    one, handed to the \<open>Date\<close> constructor;
  \<^item> the page going away after \<open>window.location.reload()\<close>: the call is counted, and the
    module's state is followed as if the page stayed.

  A \<open>json\<close> value is what \<open>JSON.parse\<close> can return; an object is the list of its own
  properties.  A \<open>jsval\<close> is a value the module handles: \<open>undefined\<close>, a parsed JSON
  value, a \<open>Date\<close> object (\<open>None\<close> is the invalid date, whose time value is \<open>NaN\<close>),
  or an object built by an object literal.
\<close>

datatype json =
    JNull
  | JBool bool
  | JNum int
  | JStr string
  | JArr "json list"
  | JObj "(string \<times> json) list"

datatype jsval =
    Undefined
  | Json json
  | DateV "int option"
  | Object "(string \<times> jsval) list"

text \<open>
  What the module throws or lets through: \<open>new Error(message)\<close> of its own, and the
  platform's \<open>TypeError\<close> (a rejected \<open>fetch\<close>, a property read on \<open>null\<close>),
  \<open>SyntaxError\<close> (\<open>response.json()\<close> on a body that is not JSON) and \<open>RangeError\<close>
  (\<open>toISOString\<close> of an invalid date).
\<close>

datatype js_error = Error string | TypeError | SyntaxError | RangeError

text \<open>
  The text-level built-ins are parameters of the model: \<open>JSON.parse\<close> (\<open>None\<close> when it
  throws), \<open>JSON.stringify\<close> on a JSON value, \<open>Date.parse\<close> (\<open>None\<close> is \<open>NaN\<close>),
  \<open>Date.prototype.toISOString\<close> on a valid time value, and the string conversion of an
  array or object handed to the \<open>Date\<close> constructor.
\<close>

record platform =
  JSON_parse :: "string \<Rightarrow> json option"
  JSON_stringify :: "json \<Rightarrow> string"
  Date_parse :: "string \<Rightarrow> int option"
  toISOString :: "int \<Rightarrow> string"
  ToString :: "json \<Rightarrow> string"

text \<open>\<open>v == null\<close> holds of \<open>null\<close> and \<open>undefined\<close> only.\<close>

definition is_nullish :: "jsval \<Rightarrow> bool" where
  "is_nullish v = (v = Undefined \<or> v = Json JNull)"

text \<open>
  Reading property \<open>k\<close> of a value that is neither \<open>null\<close> nor \<open>undefined\<close>: an own
  property of an object, \<open>undefined\<close> when there is none, and \<open>undefined\<close> on numbers,
  strings, booleans, arrays and dates (none of the names the module reads is inherited).
\<close>

fun property :: "jsval \<Rightarrow> string \<Rightarrow> jsval" where
  "property (Json (JObj kvs)) k = (case map_of kvs k of None \<Rightarrow> Undefined | Some v \<Rightarrow> Json v)"
| "property (Object kvs) k = (case map_of kvs k of None \<Rightarrow> Undefined | Some v \<Rightarrow> v)"
| "property v k = Undefined"

text \<open>\<open>v?.k\<close>: \<open>undefined\<close> when \<open>v\<close> is \<open>null\<close> or \<open>undefined\<close>.\<close>

definition opt_chain :: "jsval \<Rightarrow> string \<Rightarrow> jsval" where
  "opt_chain v k = (if is_nullish v then Undefined else property v k)"

text \<open>\<open>v.k\<close>: a \<open>TypeError\<close> when \<open>v\<close> is \<open>null\<close> or \<open>undefined\<close>.\<close>

definition member :: "jsval \<Rightarrow> string \<Rightarrow> js_error + jsval" where
  "member v k = (if is_nullish v then Inl TypeError else Inr (property v k))"

text \<open>Truthiness, as \<open>!v\<close> and \<open>if (v)\<close> test it.\<close>

fun truthy :: "jsval \<Rightarrow> bool" where
  "truthy Undefined = False"
| "truthy (Json JNull) = False"
| "truthy (Json (JBool b)) = b"
| "truthy (Json (JNum n)) = (n \<noteq> 0)"
| "truthy (Json (JStr s)) = (s \<noteq> [])"
| "truthy v = True"

text \<open>
  \<open>new Date(v).getTime()\<close>.  \<open>TimeClip\<close> makes a number beyond 8.64e15 ms the invalid
  date.  \<open>undefined\<close> gives \<open>NaN\<close>, \<open>null\<close> and booleans convert to numbers, a string
  goes through \<open>Date.parse\<close>, an array or object is first converted to a string.
\<close>

definition TimeClip :: "int \<Rightarrow> int option" where
  "TimeClip n = (if \<bar>n\<bar> \<le> 8640000000000000 then Some n else None)"

fun new_Date :: "platform \<Rightarrow> jsval \<Rightarrow> int option" where
  "new_Date P Undefined = None"
| "new_Date P (Json JNull) = Some 0"
| "new_Date P (Json (JBool b)) = Some (if b then 1 else 0)"
| "new_Date P (Json (JNum n)) = TimeClip n"
| "new_Date P (Json (JStr s)) = Date_parse P s"
| "new_Date P (Json j) = Date_parse P (ToString P j)"
| "new_Date P (DateV t) = t"
| "new_Date P (Object kvs) = Date_parse P ''[object Object]''"

text \<open>
  The JSON value \<open>JSON.stringify\<close> serialises for a value: \<open>undefined\<close> has none (a
  property holding it is left out), a date serialises through \<open>toJSON\<close> as its ISO string
  (\<open>null\<close> when invalid).
\<close>

primrec SerializeJSONProperty :: "platform \<Rightarrow> jsval \<Rightarrow> json option" where
  "SerializeJSONProperty P Undefined = None"
| "SerializeJSONProperty P (Json j) = Some j"
| "SerializeJSONProperty P (DateV t) =
     (case t of None \<Rightarrow> Some JNull | Some ms \<Rightarrow> Some (JStr (toISOString P ms)))"
| "SerializeJSONProperty P (Object kvs) =
     Some (JObj (List.map_filter (\<lambda>(k, r). map_option (Pair k) r)
                  (map (map_prod id (SerializeJSONProperty P)) kvs)))"

text \<open>Decimal digits of a number, as a template literal prints it.\<close>

fun show_nat :: "nat \<Rightarrow> string" where
  "show_nat n =
     (if n < 10 then [''0123456789'' ! n]
      else show_nat (n div 10) @ [''0123456789'' ! (n mod 10)])"

declare show_nat.simps [simp del]

section \<open>The state the module acts on\<close>

text \<open>
  A pending timer of the event loop: the delay handed to \<open>setTimeout\<close> (\<open>None\<close> when
  the module hands it \<open>NaN\<close>) and which of the module's two callbacks it runs, the
  pre-fetch closure of lines 103-110 or the refresh closure of lines 121-129.
\<close>

datatype callback = PreFetch | Refresh

record timer =
  delay :: "int option"
  callback :: callback

text \<open>
  One constructor for each \<open>console\<close> call of the module, with the values it prints
  (the prefix \<open>LOGGER_PREFIX\<close> of every message is a constant defined outside this file).
\<close>

datatype log_entry =
    Credentials_obtained string
  | Error_getting js_error
  | Refresh_scheduled "int option"
  | Error_prefetching js_error
  | Error_refreshing js_error

text \<open>
  \<open>localStorage\<close> maps keys to strings and outlives the page.  \<open>credentialRefreshTimerId\<close>
  is the module's variable of line 6 (\<open>None\<close> is \<open>null\<close>).  \<open>timers\<close> are the pending
  timers the module has armed, by the identifier \<open>setTimeout\<close> returned, and
  \<open>next_timer_id\<close> is the identifier the next \<open>setTimeout\<close> returns.  \<open>network_calls\<close>
  counts the calls of \<open>fetch\<close> and \<open>reloads\<close> those of \<open>window.location.reload\<close>.
\<close>

record state =
  localStorage :: "string \<rightharpoonup> string"
  credentialRefreshTimerId :: "nat option"
  timers :: "nat \<rightharpoonup> timer"
  next_timer_id :: nat
  console :: "log_entry list"
  network_calls :: nat
  reloads :: nat

definition removeItem :: "string \<Rightarrow> state \<Rightarrow> state" where
  "removeItem key s = s\<lparr>localStorage := (localStorage s)(key := None)\<rparr>"

definition setItem :: "string \<Rightarrow> string \<Rightarrow> state \<Rightarrow> state" where
  "setItem key val s = s\<lparr>localStorage := (localStorage s)(key \<mapsto> val)\<rparr>"

definition log :: "log_entry \<Rightarrow> state \<Rightarrow> state" where
  "log e s = s\<lparr>console := console s @ [e]\<rparr>"

text \<open>\<open>setTimeout\<close> returns a fresh identifier; \<open>clearTimeout\<close> of one not pending does nothing.\<close>

definition setTimeout :: "callback \<Rightarrow> int option \<Rightarrow> state \<Rightarrow> nat \<times> state" where
  "setTimeout cb d s =
     (next_timer_id s,
      s\<lparr>timers := (timers s)(next_timer_id s \<mapsto> \<lparr>delay = d, callback = cb\<rparr>),
        next_timer_id := Suc (next_timer_id s)\<rparr>)"

definition clearTimeout :: "nat \<Rightarrow> state \<Rightarrow> state" where
  "clearTimeout i s = s\<lparr>timers := (timers s)(i := None)\<rparr>"

text \<open>
  The configuration (lines 145-148 and 171-175): \<open>window.WebappConfig.credentialVendingApiUrl\<close>
  is a string or \<open>undefined\<close>, and \<open>getParamValue\<close> turns the placeholder into \<open>undefined\<close>.
\<close>

record config =
  WebappConfig_credentialVendingApiUrl :: "string option"

definition getParamValue :: "string option \<Rightarrow> string option" where
  "getParamValue param = (if param = Some ''not-defined'' then None else param)"

definition credentialVendingApiUrl :: "config \<Rightarrow> string option" where
  "credentialVendingApiUrl cfg = getParamValue (WebappConfig_credentialVendingApiUrl cfg)"

section \<open>Stored credentials and their validity (lines 11-41)\<close>

definition setAwsCredentials :: "platform \<Rightarrow> jsval \<Rightarrow> state \<Rightarrow> state" where
  "setAwsCredentials P awsCredentials s =
     setItem ''awsCredentials''
       (case SerializeJSONProperty P awsCredentials of
          None \<Rightarrow> ''undefined''
        | Some j \<Rightarrow> JSON_stringify P j) s"

definition getAwsCredentialsFromStorage :: "platform \<Rightarrow> state \<Rightarrow> jsval" where
  "getAwsCredentialsFromStorage P s =
     (case localStorage s ''awsCredentials'' of
        None \<Rightarrow> Json JNull
      | Some stored \<Rightarrow>
          if stored = [] then Json JNull
          else (case JSON_parse P stored of
                  Some j \<Rightarrow> Json j
                | None \<Rightarrow> Json JNull))"

text \<open>\<open>now\<close> is the time value of \<open>new Date()\<close> at the call.\<close>

definition hasValidAwsCredentials :: "platform \<Rightarrow> int \<Rightarrow> state \<Rightarrow> bool" where
  "hasValidAwsCredentials P now s =
     (let awsCredentials = getAwsCredentialsFromStorage P s in
      if is_nullish (opt_chain awsCredentials ''accessKeyId'') \<or>
         is_nullish (opt_chain awsCredentials ''secretAccessKey'') \<or>
         is_nullish (opt_chain awsCredentials ''sessionToken'') \<or>
         is_nullish (opt_chain awsCredentials ''expiration'')
      then False
      else
        let bufferTime = 5 * 60 * 1000;
            currentTime = now;
            expirationTime = new_Date P (property awsCredentials ''expiration'')
        in (case expirationTime of
              None \<Rightarrow> False
            | Some e \<Rightarrow> currentTime + bufferTime < e))"

section \<open>Fetching credentials (lines 43-90)\<close>

text \<open>
  What \<open>fetch\<close> settles with: a rejection (the request failed) or a response with its
  status line and body text.  \<open>response.ok\<close> is a status from 200 to 299.
\<close>

record response =
  status :: nat
  statusText :: string
  body :: string

datatype fetch_outcome = Rejected | Resolved response

definition ok :: "response \<Rightarrow> bool" where
  "ok r = (200 \<le> status r \<and> status r \<le> 299)"

text \<open>
  \<open>fetchCredentialsFromApi\<close> up to the call of \<open>fetch\<close> (lines 44-55): it throws when the
  URL is \<open>undefined\<close> or empty, and otherwise issues the request.
\<close>

definition fetch_request :: "config \<Rightarrow> state \<Rightarrow> js_error + state" where
  "fetch_request cfg s =
     (let apiUrl = credentialVendingApiUrl cfg in
      if apiUrl = None \<or> apiUrl = Some [] then
        Inl (Error ''credentialVendingApiUrl is not configured in WebappConfig'')
      else Inr (s\<lparr>network_calls := Suc (network_calls s)\<rparr>))"

text \<open>\<open>fetchCredentialsFromApi\<close> from the moment \<open>fetch\<close> settles (lines 57-72).\<close>

definition fetch_response :: "platform \<Rightarrow> fetch_outcome \<Rightarrow> state \<Rightarrow> (js_error + jsval) \<times> state" where
  "fetch_response P outcome s =
     (case outcome of
        Rejected \<Rightarrow> (Inl TypeError, s)
      | Resolved response \<Rightarrow>
          if \<not> ok response then
            (Inl (Error (''Credential vending API returned '' @ show_nat (status response)
                          @ '': '' @ statusText response)), s)
          else
            (case JSON_parse P (body response) of
               None \<Rightarrow> (Inl SyntaxError, s)
             | Some d \<Rightarrow>
                 (case member (Json d) ''accessKeyId'' of
                    Inl e \<Rightarrow> (Inl e, s)
                  | Inr accessKeyId \<Rightarrow>
                      let data = Json d;
                          credentials = Object
                            [(''accessKeyId'', accessKeyId),
                             (''secretAccessKey'', property data ''secretAccessKey''),
                             (''sessionToken'', property data ''sessionToken''),
                             (''expiration'', DateV (new_Date P (property data ''expiration'')))]
                      in (case new_Date P (property data ''expiration'') of
                            None \<Rightarrow> (Inl RangeError, s)
                          | Some ms \<Rightarrow>
                              (Inr credentials,
                               setAwsCredentials P credentials
                                 (log (Credentials_obtained (toISOString P ms)) s))))))"

definition fetchCredentialsFromApi ::
  "platform \<Rightarrow> config \<Rightarrow> fetch_outcome \<Rightarrow> state \<Rightarrow> (js_error + jsval) \<times> state" where
  "fetchCredentialsFromApi P cfg outcome s =
     (case fetch_request cfg s of
        Inl e \<Rightarrow> (Inl e, s)
      | Inr s' \<Rightarrow> fetch_response P outcome s')"

text \<open>
  \<open>getValidAwsCredentials\<close>: the cached record when it is valid, a fetch otherwise; the
  \<open>catch\<close> logs the error and throws it again.
\<close>

definition getValidAwsCredentials ::
  "platform \<Rightarrow> config \<Rightarrow> int \<Rightarrow> fetch_outcome \<Rightarrow> state \<Rightarrow> (js_error + jsval) \<times> state" where
  "getValidAwsCredentials P cfg now outcome s =
     (if hasValidAwsCredentials P now s then (Inr (getAwsCredentialsFromStorage P s), s)
      else
        (case fetchCredentialsFromApi P cfg outcome s of
           (Inr credentials, s') \<Rightarrow> (Inr credentials, s')
         | (Inl error, s') \<Rightarrow> (Inl error, log (Error_getting error) s')))"

section \<open>The refresh timer and logout (lines 95-141)\<close>

text \<open>
  \<open>startCredentialRefreshTimer\<close>; \<open>now\<close> is \<open>Date.now()\<close> at the call.  A timer
  identifier is truthy when it is not 0.  \<open>refreshTime\<close> is \<open>NaN\<close> (\<open>None\<close>) when the
  stored expiration is not a date, and \<open>NaN < 0\<close> is false.
\<close>

definition startCredentialRefreshTimer :: "platform \<Rightarrow> int \<Rightarrow> state \<Rightarrow> state" where
  "startCredentialRefreshTimer P now s =
     (let s1 = (case credentialRefreshTimerId s of
                  None \<Rightarrow> s
                | Some i \<Rightarrow> if i \<noteq> 0 then clearTimeout i s else s);
          awsCredentials = getAwsCredentialsFromStorage P s1
      in
        if \<not> truthy (opt_chain awsCredentials ''expiration'') then
          (case setTimeout PreFetch (Some 2000) s1 of
             (i, s2) \<Rightarrow> s2\<lparr>credentialRefreshTimerId := Some i\<rparr>)
        else
          let expirationTime = new_Date P (property awsCredentials ''expiration'');
              refreshTime = map_option (\<lambda>e. e - now - 5 * 60 * 1000) expirationTime;
              refreshTime = map_option (\<lambda>r. if r < 0 then 0 else r) refreshTime;
              s2 = log (Refresh_scheduled (map_option (\<lambda>r. r div 1000) refreshTime)) s1
          in (case setTimeout Refresh refreshTime s2 of
                (i, s3) \<Rightarrow> s3\<lparr>credentialRefreshTimerId := Some i\<rparr>))"

text \<open>
  The two timer callbacks, run to completion: \<open>now\<close> is the clock when
  \<open>getValidAwsCredentials\<close> is called, \<open>outcome\<close> is what \<open>fetch\<close> settles with if it is
  called, and \<open>now'\<close> is the clock when \<open>startCredentialRefreshTimer\<close> is called.
\<close>

definition prefetch_callback ::
  "platform \<Rightarrow> config \<Rightarrow> int \<Rightarrow> fetch_outcome \<Rightarrow> int \<Rightarrow> state \<Rightarrow> state" where
  "prefetch_callback P cfg now outcome now' s =
     (case getValidAwsCredentials P cfg now outcome s of
        (Inr credentials, s') \<Rightarrow> startCredentialRefreshTimer P now' s'
      | (Inl error, s') \<Rightarrow> log (Error_prefetching error) s')"

definition refresh_callback ::
  "platform \<Rightarrow> config \<Rightarrow> int \<Rightarrow> fetch_outcome \<Rightarrow> int \<Rightarrow> state \<Rightarrow> state" where
  "refresh_callback P cfg now outcome now' s =
     (case getValidAwsCredentials P cfg now outcome (removeItem ''awsCredentials'' s) of
        (Inr credentials, s') \<Rightarrow> startCredentialRefreshTimer P now' s'
      | (Inl error, s') \<Rightarrow> log (Error_refreshing error) s')"

text \<open>A pending timer fires: it leaves the pending timers and its callback runs.\<close>

definition fire ::
  "platform \<Rightarrow> config \<Rightarrow> nat \<Rightarrow> int \<Rightarrow> fetch_outcome \<Rightarrow> int \<Rightarrow> state \<Rightarrow> state option" where
  "fire P cfg i now outcome now' s =
     (case timers s i of
        None \<Rightarrow> None
      | Some t \<Rightarrow>
          (case callback t of
             PreFetch \<Rightarrow> Some (prefetch_callback P cfg now outcome now' (clearTimeout i s))
           | Refresh \<Rightarrow> Some (refresh_callback P cfg now outcome now' (clearTimeout i s))))"

definition logout :: "state \<Rightarrow> state" where
  "logout s =
     (let s1 = removeItem ''awsCredentials'' s;
          s2 = (case credentialRefreshTimerId s1 of
                  None \<Rightarrow> s1
                | Some i \<Rightarrow> if i \<noteq> 0 then clearTimeout i s1 else s1)
      in s2\<lparr>reloads := Suc (reloads s2)\<rparr>)"

section \<open>The module in the event loop\<close>

text \<open>
  An \<open>async\<close> function runs until its first \<open>await\<close> of a pending promise and is
  resumed later; other events run in between.  The only such \<open>await\<close> is on \<open>fetch\<close>,
  so \<open>getValidAwsCredentials\<close> either settles at once (a valid cached record, or no URL
  configured) or is suspended with a request in flight.
\<close>

datatype progress = Settled "js_error + jsval" state | Suspended state

definition getValidAwsCredentials_begin :: "platform \<Rightarrow> config \<Rightarrow> int \<Rightarrow> state \<Rightarrow> progress" where
  "getValidAwsCredentials_begin P cfg now s =
     (if hasValidAwsCredentials P now s then Settled (Inr (getAwsCredentialsFromStorage P s)) s
      else
        (case fetch_request cfg s of
           Inl error \<Rightarrow> Settled (Inl error) (log (Error_getting error) s)
         | Inr s' \<Rightarrow> Suspended s'))"

definition getValidAwsCredentials_resume ::
  "platform \<Rightarrow> fetch_outcome \<Rightarrow> state \<Rightarrow> (js_error + jsval) \<times> state" where
  "getValidAwsCredentials_resume P outcome s =
     (case fetch_response P outcome s of
        (Inr credentials, s') \<Rightarrow> (Inr credentials, s')
      | (Inl error, s') \<Rightarrow> (Inl error, log (Error_getting error) s'))"

text \<open>What a timer callback does once its \<open>await getValidAwsCredentials()\<close> has settled.\<close>

definition callback_continue ::
  "platform \<Rightarrow> callback \<Rightarrow> int \<Rightarrow> js_error + jsval \<Rightarrow> state \<Rightarrow> state" where
  "callback_continue P cb now' r s =
     (case r of
        Inr credentials \<Rightarrow> startCredentialRefreshTimer P now' s
      | Inl error \<Rightarrow>
          log (case cb of PreFetch \<Rightarrow> Error_prefetching error
                        | Refresh \<Rightarrow> Error_refreshing error) s)"

text \<open>
  Who waits for a request in flight: an adapter that called \<open>getValidAwsCredentials\<close>,
  or one of the timer callbacks.
\<close>

datatype caller = Adapter | TimerCallback callback

text \<open>
  The events: the application starts the timer, a pending timer fires, an adapter asks
  for credentials, a request in flight settles and its caller resumes, the user logs out.
  Each carries the clock readings its code takes.
\<close>

datatype event =
    Start int
  | Fire nat int int
  | Call int
  | Settle caller fetch_outcome int
  | Logout

type_synonym world = "state \<times> caller list"

definition step :: "platform \<Rightarrow> config \<Rightarrow> event \<Rightarrow> world \<Rightarrow> world option" where
  "step P cfg ev w =
     (case w of (s, waiting) \<Rightarrow>
        (case ev of
           Start now \<Rightarrow> Some (startCredentialRefreshTimer P now s, waiting)
         | Fire i now now' \<Rightarrow>
             (case timers s i of
                None \<Rightarrow> None
              | Some t \<Rightarrow>
                  let s0 = clearTimeout i s;
                      s1 = (case callback t of
                              PreFetch \<Rightarrow> s0
                            | Refresh \<Rightarrow> removeItem ''awsCredentials'' s0)
                  in (case getValidAwsCredentials_begin P cfg now s1 of
                        Settled r s2 \<Rightarrow> Some (callback_continue P (callback t) now' r s2, waiting)
                      | Suspended s2 \<Rightarrow> Some (s2, waiting @ [TimerCallback (callback t)])))
         | Call now \<Rightarrow>
             (case getValidAwsCredentials_begin P cfg now s of
                Settled r s1 \<Rightarrow> Some (s1, waiting)
              | Suspended s1 \<Rightarrow> Some (s1, waiting @ [Adapter]))
         | Settle c outcome now' \<Rightarrow>
             if c \<in> set waiting then
               (case getValidAwsCredentials_resume P outcome s of
                  (r, s1) \<Rightarrow>
                    (case c of
                       Adapter \<Rightarrow> Some (s1, remove1 c waiting)
                     | TimerCallback cb \<Rightarrow>
                         Some (callback_continue P cb now' r s1, remove1 c waiting)))
             else None
         | Logout \<Rightarrow> Some (logout s, waiting)))"

fun run :: "platform \<Rightarrow> config \<Rightarrow> event list \<Rightarrow> world \<Rightarrow> world option" where
  "run P cfg [] w = Some w"
| "run P cfg (ev # evs) w =
     (case step P cfg ev w of
        None \<Rightarrow> None
      | Some w' \<Rightarrow> run P cfg evs w')"

text \<open>The module as the page loads it: no timer identifier, no timer armed, nothing in flight.\<close>

definition loaded :: "state \<Rightarrow> bool" where
  "loaded s = (credentialRefreshTimerId s = None \<and> timers s = Map.empty \<and> 0 < next_timer_id s)"

definition pending :: "state \<Rightarrow> nat set" where
  "pending s = dom (timers s)"

section \<open>Notions the statements use\<close>

text \<open>The own property \<open>k\<close> of a parsed JSON object; a value that is no object has none.\<close>

definition field :: "json \<Rightarrow> string \<Rightarrow> json option" where
  "field j k = (case j of JObj kvs \<Rightarrow> map_of kvs k | _ \<Rightarrow> None)"

text \<open>
  The \<open>expiration\<close> of the stored record, when a record is stored (the key holds text
  that parses) and has one.
\<close>

definition stored_expiration :: "platform \<Rightarrow> state \<Rightarrow> json option" where
  "stored_expiration P s =
     (case localStorage s ''awsCredentials'' of
        None \<Rightarrow> None
      | Some stored \<Rightarrow>
          if stored = [] then None
          else (case JSON_parse P stored of
                  None \<Rightarrow> None
                | Some j \<Rightarrow> field j ''expiration''))"

text \<open>
  The property \<open>k\<close> of the parsed body \<open>d\<close> as \<open>JSON.stringify\<close> writes it for the
  record built from \<open>d\<close>: left out when \<open>d\<close> has none.
\<close>

definition kept :: "json \<Rightarrow> string \<Rightarrow> (string \<times> json) list" where
  "kept d k = (case field d k of None \<Rightarrow> [] | Some v \<Rightarrow> [(k, v)])"

text \<open>The endpoint URL is configured: the configuration holds a non-empty string for it.\<close>

definition configured :: "config \<Rightarrow> bool" where
  "configured cfg = (credentialVendingApiUrl cfg \<noteq> None \<and> credentialVendingApiUrl cfg \<noteq> Some [])"

text \<open>
  The platform reads back what it wrote for the record \<open>r\<close>: the text it serialises for
  \<open>r\<close> is not empty and parses to the same JSON value, and the ISO string of the date in
  the \<open>expiration\<close> of \<open>r\<close> parses to the same time value.
\<close>

definition reads_back :: "platform \<Rightarrow> jsval \<Rightarrow> bool" where
  "reads_back P r =
     (case SerializeJSONProperty P r of
        None \<Rightarrow> False
      | Some j \<Rightarrow>
          JSON_stringify P j \<noteq> [] \<and> JSON_parse P (JSON_stringify P j) = Some j \<and>
          (case property r ''expiration'' of
             DateV (Some ms) \<Rightarrow> Date_parse P (toISOString P ms) = Some ms
           | _ \<Rightarrow> True))"

text \<open>
  The single-timer invariant: every pending timer of the module is the one
  \<open>credentialRefreshTimerId\<close> names, and identifiers are positive and below the next
  one \<open>setTimeout\<close> hands out.
\<close>

definition timer_inv :: "state \<Rightarrow> bool" where
  "timer_inv s =
     (0 < next_timer_id s \<and>
      (case credentialRefreshTimerId s of
         None \<Rightarrow> pending s = {}
       | Some i \<Rightarrow> 0 < i \<and> i < next_timer_id s \<and> pending s \<subseteq> {i}))"

text \<open>
  A request settles with credentials the module accepts: the response has a 2xx status,
  its body is JSON other than \<open>null\<close>, and the \<open>expiration\<close> of the body is a date.
  These are the requests after which \<open>fetchCredentialsFromApi\<close> stores a record and
  returns it.
\<close>

definition fetch_succeeds :: "platform \<Rightarrow> fetch_outcome \<Rightarrow> bool" where
  "fetch_succeeds P outcome =
     (case outcome of
        Rejected \<Rightarrow> False
      | Resolved response \<Rightarrow>
          ok response \<and>
          (case JSON_parse P (body response) of
             None \<Rightarrow> False
           | Some d \<Rightarrow> d \<noteq> JNull \<and> new_Date P (property (Json d) ''expiration'') \<noteq> None))"

text \<open>
  The events in which \<open>startCredentialRefreshTimer\<close> is called while no timer is
  pending: the application starts the timer, or a timer callback is resumed by a request
  that succeeded (lines 106 and 125; after a request that failed the callback only logs).
\<close>

fun calls_start :: "platform \<Rightarrow> event \<Rightarrow> bool" where
  "calls_start P (Start now) = True"
| "calls_start P (Settle (TimerCallback cb) outcome now') = fetch_succeeds P outcome"
| "calls_start P ev = False"

text \<open>The events in which a record is written to the store: a request succeeds.\<close>

fun stores_record :: "platform \<Rightarrow> event \<Rightarrow> bool" where
  "stores_record P (Settle c outcome now') = fetch_succeeds P outcome"
| "stores_record P ev = False"

fun is_Fire :: "event \<Rightarrow> bool" where
  "is_Fire (Fire i now now') = True"
| "is_Fire ev = False"

section \<open>A concrete platform fragment and concrete states\<close>

text \<open>
  The examples run on the platform restricted to the texts and times they use: JSON
  texts with the values they parse to, and two ISO strings with their time values (any
  other string, such as \<open>garbage\<close>, is no date).  The clock reads
  2026-02-02T02:40:00.000Z.
\<close>

definition demo_now :: int where
  "demo_now = 1770000000000"

definition full_doc :: json where
  "full_doc = JObj [(''accessKeyId'', JStr ''ASIAEXAMPLE''), (''secretAccessKey'', JStr ''secret''),
                    (''sessionToken'', JStr ''token''),
                    (''expiration'', JStr ''2026-02-02T03:40:00.000Z'')]"

definition full_text :: string where
  \<open>full_text = ''{"accessKeyId":"ASIAEXAMPLE","secretAccessKey":"secret","sessionToken":"token","expiration":"2026-02-02T03:40:00.000Z"}''\<close>

definition partial_doc :: json where
  "partial_doc = JObj [(''secretAccessKey'', JStr ''secret''), (''sessionToken'', JStr ''token''),
                       (''expiration'', JStr ''2026-02-02T03:40:00.000Z'')]"

definition partial_text :: string where
  \<open>partial_text = ''{"secretAccessKey":"secret","sessionToken":"token","expiration":"2026-02-02T03:40:00.000Z"}''\<close>

definition short_doc :: json where
  "short_doc = JObj [(''accessKeyId'', JStr ''ASIAEXAMPLE''), (''secretAccessKey'', JStr ''secret''),
                     (''sessionToken'', JStr ''token''),
                     (''expiration'', JStr ''2026-02-02T02:41:00.000Z'')]"

definition short_text :: string where
  \<open>short_text = ''{"accessKeyId":"ASIAEXAMPLE","secretAccessKey":"secret","sessionToken":"token","expiration":"2026-02-02T02:41:00.000Z"}''\<close>

text \<open>Two stored records not written by the module: the expiration is the number 0, or no date.\<close>

definition epoch_doc :: json where
  "epoch_doc = JObj [(''accessKeyId'', JStr ''ASIAEXAMPLE''), (''secretAccessKey'', JStr ''secret''),
                     (''sessionToken'', JStr ''token''), (''expiration'', JNum 0)]"

definition epoch_text :: string where
  \<open>epoch_text = ''{"accessKeyId":"ASIAEXAMPLE","secretAccessKey":"secret","sessionToken":"token","expiration":0}''\<close>

definition garbage_doc :: json where
  "garbage_doc = JObj [(''accessKeyId'', JStr ''ASIAEXAMPLE''), (''secretAccessKey'', JStr ''secret''),
                       (''sessionToken'', JStr ''token''), (''expiration'', JStr ''garbage'')]"

definition garbage_text :: string where
  \<open>garbage_text = ''{"accessKeyId":"ASIAEXAMPLE","secretAccessKey":"secret","sessionToken":"token","expiration":"garbage"}''\<close>

definition demo_platform :: platform where
  "demo_platform =
     \<lparr>JSON_parse = map_of [(full_text, full_doc), (partial_text, partial_doc), (short_text, short_doc),
                           (epoch_text, epoch_doc), (garbage_text, garbage_doc)],
      JSON_stringify = (\<lambda>j. if j = full_doc then full_text
                            else if j = partial_doc then partial_text
                            else if j = short_doc then short_text else ''null''),
      Date_parse = map_of [(''2026-02-02T03:40:00.000Z'', 1770003600000),
                           (''2026-02-02T02:41:00.000Z'', 1770000060000)],
      toISOString = (\<lambda>ms. if ms = 1770003600000 then ''2026-02-02T03:40:00.000Z''
                          else if ms = 1770000060000 then ''2026-02-02T02:41:00.000Z'' else []),
      ToString = (\<lambda>j. ''[object Object]'')\<rparr>"

definition with_url :: config where
  "with_url = \<lparr>WebappConfig_credentialVendingApiUrl = Some ''https://api.example.com/prod/credentials''\<rparr>"

definition without_url :: config where
  "without_url = \<lparr>WebappConfig_credentialVendingApiUrl = Some ''not-defined''\<rparr>"

definition respond :: "string \<Rightarrow> fetch_outcome" where
  "respond text = Resolved \<lparr>status = 200, statusText = ''OK'', body = text\<rparr>"

definition fresh_page :: state where
  "fresh_page =
     \<lparr>localStorage = Map.empty, credentialRefreshTimerId = None, timers = Map.empty,
      next_timer_id = 1, console = [], network_calls = 0, reloads = 0\<rparr>"

definition cached_page :: state where
  "cached_page = fresh_page\<lparr>localStorage := [''awsCredentials'' \<mapsto> full_text]\<rparr>"

text \<open>
  The page with the refresh timer armed from the cached record, and the page on which
  the pre-fetch timer was armed and credentials were stored before it fired.
\<close>

definition refresh_armed_page :: state where
  "refresh_armed_page = startCredentialRefreshTimer demo_platform demo_now cached_page"

definition prefetch_armed_page :: state where
  "prefetch_armed_page =
     (startCredentialRefreshTimer demo_platform demo_now fresh_page)
       \<lparr>localStorage := [''awsCredentials'' \<mapsto> full_text]\<rparr>"

text \<open>
  A run on a fresh page: the application starts the timer, the pre-fetch timer fires and
  its callback is suspended on the request, the request settles with credentials, and
  the application starts the timer again.
\<close>

definition demo_events :: "event list" where
  "demo_events =
     [Start demo_now,
      Fire 1 (demo_now + 2000) (demo_now + 2000),
      Settle (TimerCallback PreFetch) (respond full_text) (demo_now + 2100),
      Start (demo_now + 3000)]"

text \<open>The pages whose stored record has the expiration 0, and an expiration that is no date.\<close>

definition epoch_page :: state where
  "epoch_page = fresh_page\<lparr>localStorage := [''awsCredentials'' \<mapsto> epoch_text]\<rparr>"

definition garbage_page :: state where
  "garbage_page = fresh_page\<lparr>localStorage := [''awsCredentials'' \<mapsto> garbage_text]\<rparr>"

text \<open>
  A page with a request in flight: the application started the timer on a fresh page,
  the pre-fetch timer fired, and its callback is suspended on the request.  Then the
  user logs out.
\<close>

definition in_flight_page :: state where
  "in_flight_page =
     (clearTimeout 1 (startCredentialRefreshTimer demo_platform demo_now fresh_page))
       \<lparr>network_calls := 1\<rparr>"

definition logout_in_flight :: "event list" where
  "logout_in_flight =
     [Start demo_now,
      Fire 1 (demo_now + 2000) (demo_now + 2000),
      Logout]"

section \<open>Basic facts\<close>

text \<open>The fields the state modifiers leave alone, and the platform fragment of the examples.\<close>

lemma modifier_fields:
  "localStorage (clearTimeout i s) = localStorage s"
  "network_calls (clearTimeout i s) = network_calls s"
  "next_timer_id (clearTimeout i s) = next_timer_id s"
  "credentialRefreshTimerId (clearTimeout i s) = credentialRefreshTimerId s"
  "timers (clearTimeout i s) = (timers s)(i := None)"
  "network_calls (removeItem k s) = network_calls s"
  "next_timer_id (removeItem k s) = next_timer_id s"
  "credentialRefreshTimerId (removeItem k s) = credentialRefreshTimerId s"
  "timers (removeItem k s) = timers s"
  "localStorage (removeItem k s) = (localStorage s)(k := None)"
  by (simp_all add: clearTimeout_def removeItem_def)

lemma stored_expiration_clearTimeout:
  "stored_expiration P (clearTimeout i s) = stored_expiration P s"
  "getAwsCredentialsFromStorage P (clearTimeout i s) = getAwsCredentialsFromStorage P s"
  by (simp_all add: stored_expiration_def getAwsCredentialsFromStorage_def clearTimeout_def)

lemma rejected_fetch:
  "fetch_response P Rejected s = (Inl TypeError, s)"
  by (simp add: fetch_response_def)

lemma demo_parse:
  "JSON_parse demo_platform full_text = Some full_doc"
  "JSON_parse demo_platform partial_text = Some partial_doc"
  "JSON_parse demo_platform short_text = Some short_doc"
  "JSON_parse demo_platform epoch_text = Some epoch_doc"
  "JSON_parse demo_platform garbage_text = Some garbage_doc"
  by (simp_all add: demo_platform_def full_text_def partial_text_def short_text_def
      epoch_text_def garbage_text_def)

lemma demo_stringify:
  "JSON_stringify demo_platform full_doc = full_text"
  "JSON_stringify demo_platform partial_doc = partial_text"
  "JSON_stringify demo_platform short_doc = short_text"
  by (simp_all add: demo_platform_def full_doc_def partial_doc_def short_doc_def)

lemmas demo_stringify_docs =
  demo_stringify [unfolded full_doc_def partial_doc_def short_doc_def]

lemma demo_dates:
  "Date_parse demo_platform ''2026-02-02T03:40:00.000Z'' = Some 1770003600000"
  "Date_parse demo_platform ''2026-02-02T02:41:00.000Z'' = Some 1770000060000"
  "Date_parse demo_platform ''garbage'' = None"
  "toISOString demo_platform 1770003600000 = ''2026-02-02T03:40:00.000Z''"
  "toISOString demo_platform 1770000060000 = ''2026-02-02T02:41:00.000Z''"
  by (simp_all add: demo_platform_def)

lemma demo_configs:
  "configured with_url" "\<not> configured without_url"
  by (simp_all add: configured_def with_url_def without_url_def credentialVendingApiUrl_def
      getParamValue_def)

lemma demo_texts_nonempty:
  "full_text \<noteq> []" "partial_text \<noteq> []" "short_text \<noteq> []"
  "epoch_text \<noteq> []" "garbage_text \<noteq> []"
  by (simp_all add: full_text_def partial_text_def short_text_def epoch_text_def
      garbage_text_def)

lemma ok_respond:
  "fetch_response P (respond text) s =
     fetch_response P (Resolved \<lparr>status = 200, statusText = ''OK'', body = text\<rparr>) s"
  by (simp add: respond_def)

lemma fresh_page_invalid: "\<not> hasValidAwsCredentials P now fresh_page"
  by (simp add: hasValidAwsCredentials_def getAwsCredentialsFromStorage_def fresh_page_def
      opt_chain_def is_nullish_def)

lemma cached_page_read: "getAwsCredentialsFromStorage demo_platform cached_page = Json full_doc"
  by (simp add: demo_parse demo_texts_nonempty getAwsCredentialsFromStorage_def cached_page_def
      fresh_page_def)

lemma cached_page_valid: "hasValidAwsCredentials demo_platform demo_now cached_page"
  by (simp add: cached_page_read demo_dates hasValidAwsCredentials_def opt_chain_def
      is_nullish_def full_doc_def demo_now_def)

lemmas state_facts = modifier_fields stored_expiration_clearTimeout rejected_fetch

lemmas demo_facts =
  demo_parse demo_stringify demo_stringify_docs demo_dates demo_configs demo_texts_nonempty
  ok_respond

lemmas demo_page_facts = fresh_page_invalid cached_page_read cached_page_valid

section \<open>Reading the store\<close>

lemma opt_chain_Json:
  "is_nullish (opt_chain (Json j) k) = (\<forall>v. field j k = Some v \<longrightarrow> v = JNull)"
  by (cases j) (auto simp: opt_chain_def is_nullish_def field_def split: option.splits)

lemma property_Json:
  "property (Json j) k = (case field j k of None \<Rightarrow> Undefined | Some v \<Rightarrow> Json v)"
  by (cases j) (auto simp: field_def)

lemma valid_record_read:
  "hasValidAwsCredentials P now s =
     (\<exists>stored j a k t x e.
        localStorage s ''awsCredentials'' = Some stored \<and> stored \<noteq> [] \<and>
        JSON_parse P stored = Some j \<and>
        field j ''accessKeyId'' = Some a \<and> a \<noteq> JNull \<and>
        field j ''secretAccessKey'' = Some k \<and> k \<noteq> JNull \<and>
        field j ''sessionToken'' = Some t \<and> t \<noteq> JNull \<and>
        field j ''expiration'' = Some x \<and> x \<noteq> JNull \<and>
        new_Date P (Json x) = Some e \<and> now + 5 * 60 * 1000 < e)"
  apply (simp add: hasValidAwsCredentials_def getAwsCredentialsFromStorage_def Let_def
      opt_chain_Json property_Json split: option.splits)
  apply (auto simp: is_nullish_def opt_chain_def field_def)
  done

text \<open>
  C2.  \<open>hasValidAwsCredentials\<close> returns true exactly when the key holds a text that
  parses to a record whose four fields \<open>accessKeyId\<close>, \<open>secretAccessKey\<close>,
  \<open>sessionToken\<close> and \<open>expiration\<close> are present and not null, and the clock plus the
  five-minute buffer is before the expiration.  So it returns false when the record is
  absent, when the text is empty or malformed, and when one of the four fields is absent
  or null; and with the four fields present it returns true if and only if
  \<open>now + 5 min < expiration\<close> (an expiration that is no date compares false).
\<close>

theorem hasValidAwsCredentials_iff:
  "hasValidAwsCredentials P now s =
     (\<exists>stored j a k t x e.
        localStorage s ''awsCredentials'' = Some stored \<and> stored \<noteq> [] \<and>
        JSON_parse P stored = Some j \<and>
        field j ''accessKeyId'' = Some a \<and> a \<noteq> JNull \<and>
        field j ''secretAccessKey'' = Some k \<and> k \<noteq> JNull \<and>
        field j ''sessionToken'' = Some t \<and> t \<noteq> JNull \<and>
        field j ''expiration'' = Some x \<and> x \<noteq> JNull \<and>
        new_Date P (Json x) = Some e \<and> now + 5 * 60 * 1000 < e)"
  by (rule valid_record_read)

text \<open>
  The scenarios of the specification: a record expiring an hour from now is valid; two
  minutes before its expiration it is not; and nothing stored is not valid.
\<close>

theorem hasValidAwsCredentials_iff_witness:
  "hasValidAwsCredentials demo_platform demo_now cached_page \<and>
   \<not> hasValidAwsCredentials demo_platform (demo_now + 58 * 60 * 1000) cached_page \<and>
   \<not> hasValidAwsCredentials demo_platform demo_now fresh_page"
  unfolding hasValidAwsCredentials_iff
  by (simp add: demo_facts cached_page_def fresh_page_def full_doc_def field_def demo_now_def)

section \<open>Fetching\<close>

lemma fetch_request_configured:
  "fetch_request cfg s =
     (if configured cfg then Inr (s\<lparr>network_calls := Suc (network_calls s)\<rparr>)
      else Inl (Error ''credentialVendingApiUrl is not configured in WebappConfig''))"
  by (auto simp: fetch_request_def configured_def Let_def)

text \<open>The record the object literal of lines 63-68 builds from the parsed body \<open>d\<close>.\<close>

lemma fetch_response_ok:
  assumes "ok response"
  shows "fetch_response P (Resolved response) s =
     (case JSON_parse P (body response) of
        None \<Rightarrow> (Inl SyntaxError, s)
      | Some d \<Rightarrow>
          if d = JNull then (Inl TypeError, s)
          else
            (case new_Date P (property (Json d) ''expiration'') of
               None \<Rightarrow> (Inl RangeError, s)
             | Some ms \<Rightarrow>
                 (Inr (Object [(''accessKeyId'', property (Json d) ''accessKeyId''),
                               (''secretAccessKey'', property (Json d) ''secretAccessKey''),
                               (''sessionToken'', property (Json d) ''sessionToken''),
                               (''expiration'', DateV (Some ms))]),
                  setAwsCredentials P
                    (Object [(''accessKeyId'', property (Json d) ''accessKeyId''),
                             (''secretAccessKey'', property (Json d) ''secretAccessKey''),
                             (''sessionToken'', property (Json d) ''sessionToken''),
                             (''expiration'', DateV (Some ms))])
                    (log (Credentials_obtained (toISOString P ms)) s))))"
  using assms
  by (simp add: fetch_response_def member_def is_nullish_def Let_def split: option.splits)

lemma fetch_response_frame:
  assumes "fetch_response P outcome s = (r, s')"
  shows "timers s' = timers s \<and> credentialRefreshTimerId s' = credentialRefreshTimerId s \<and>
         next_timer_id s' = next_timer_id s \<and> network_calls s' = network_calls s \<and>
         reloads s' = reloads s"
  using assms
  by (auto simp: fetch_response_def member_def Let_def setAwsCredentials_def setItem_def log_def
      split: fetch_outcome.splits option.splits if_splits sum.splits)

lemma fetch_response_error_keeps_store:
  assumes "fetch_response P outcome s = (Inl e, s')"
  shows "s' = s"
  using assms
  by (auto simp: fetch_response_def member_def Let_def
      split: fetch_outcome.splits option.splits if_splits sum.splits)

lemma fetch_response_never_config_error:
  "fst (fetch_response P outcome s) \<noteq> Inl (Error ''credentialVendingApiUrl is not configured in WebappConfig'')"
  by (auto simp: fetch_response_def member_def Let_def
      split: fetch_outcome.splits option.splits if_splits sum.splits)

lemma serialize_credentials:
  "SerializeJSONProperty P
     (Object [(''accessKeyId'', property (Json d) ''accessKeyId''),
              (''secretAccessKey'', property (Json d) ''secretAccessKey''),
              (''sessionToken'', property (Json d) ''sessionToken''),
              (''expiration'', DateV (Some ms))]) =
   Some (JObj (kept d ''accessKeyId'' @ kept d ''secretAccessKey'' @ kept d ''sessionToken'' @
               [(''expiration'', JStr (toISOString P ms))]))"
  by (simp add: property_Json kept_def List.map_filter_simps split: option.splits)

text \<open>
  C4, as amended.  For a response with a 2xx status (and the URL configured), the fetch
  fails and leaves the store as it was in three cases: the body is not JSON (a
  \<open>SyntaxError\<close>), the body is the JSON \<open>null\<close> (a \<open>TypeError\<close>), or the
  \<open>expiration\<close> of the body gives no valid date (a \<open>RangeError\<close>).  In every other
  case it succeeds: it returns the record built from the body and stores it, with
  \<open>accessKeyId\<close>, \<open>secretAccessKey\<close> and \<open>sessionToken\<close> as the body has them, so a
  field the body lacks is \<open>undefined\<close> in the record returned and missing from the
  record stored.
\<close>

theorem fetch_2xx_outcomes:
  assumes "ok response" and "configured cfg"
    and "fetchCredentialsFromApi P cfg (Resolved response) s = (r, s')"
  shows "(case JSON_parse P (body response) of
            None \<Rightarrow> r = Inl SyntaxError \<and> localStorage s' = localStorage s
          | Some d \<Rightarrow>
              if d = JNull then r = Inl TypeError \<and> localStorage s' = localStorage s
              else
                (case new_Date P (property (Json d) ''expiration'') of
                   None \<Rightarrow> r = Inl RangeError \<and> localStorage s' = localStorage s
                 | Some ms \<Rightarrow>
                     r = Inr (Object [(''accessKeyId'', property (Json d) ''accessKeyId''),
                                      (''secretAccessKey'', property (Json d) ''secretAccessKey''),
                                      (''sessionToken'', property (Json d) ''sessionToken''),
                                      (''expiration'', DateV (Some ms))]) \<and>
                     localStorage s' ''awsCredentials'' =
                       Some (JSON_stringify P
                              (JObj (kept d ''accessKeyId'' @ kept d ''secretAccessKey'' @
                                     kept d ''sessionToken'' @
                                     [(''expiration'', JStr (toISOString P ms))])))))"
proof -
  let ?s0 = "s\<lparr>network_calls := Suc (network_calls s)\<rparr>"
  from assms(2,3) have "fetch_response P (Resolved response) ?s0 = (r, s')"
    by (simp add: fetchCredentialsFromApi_def fetch_request_configured)
  with assms(1) show ?thesis
    by (auto simp: fetch_response_ok serialize_credentials setAwsCredentials_def setItem_def
        log_def simp del: SerializeJSONProperty.simps split: option.splits)
qed

theorem fetch_2xx_outcomes_witness:
  "ok \<lparr>status = 200, statusText = ''OK'', body = full_text\<rparr> \<and> configured with_url \<and>
   fst (fetchCredentialsFromApi demo_platform with_url (respond full_text) fresh_page) =
     Inr (Object [(''accessKeyId'', Json (JStr ''ASIAEXAMPLE'')),
                  (''secretAccessKey'', Json (JStr ''secret'')),
                  (''sessionToken'', Json (JStr ''token'')),
                  (''expiration'', DateV (Some 1770003600000))]) \<and>
   localStorage (snd (fetchCredentialsFromApi demo_platform with_url (respond full_text) fresh_page))
     ''awsCredentials'' = Some full_text"
proof -
  have a: "ok \<lparr>status = 200, statusText = ''OK'', body = full_text\<rparr>"
    by (simp add: ok_def)
  have b: "configured with_url" by (simp add: demo_facts)
  obtain r s' where c: "fetchCredentialsFromApi demo_platform with_url
      (Resolved \<lparr>status = 200, statusText = ''OK'', body = full_text\<rparr>) fresh_page = (r, s')"
    by (cases "fetchCredentialsFromApi demo_platform with_url
      (Resolved \<lparr>status = 200, statusText = ''OK'', body = full_text\<rparr>) fresh_page")
  from fetch_2xx_outcomes [OF a b c] a b c show ?thesis
    by (simp add: demo_facts respond_def full_doc_def kept_def field_def)
qed

text \<open>
  The claim as stated fails: a 200 response whose body has no \<open>accessKeyId\<close> raises no
  error, and the record without the field is returned and stored.
\<close>

theorem fetch_partial_record_counterexample:
  "field partial_doc ''accessKeyId'' = None \<and>
   fst (fetchCredentialsFromApi demo_platform with_url (respond partial_text) fresh_page) =
     Inr (Object [(''accessKeyId'', Undefined),
                  (''secretAccessKey'', Json (JStr ''secret'')),
                  (''sessionToken'', Json (JStr ''token'')),
                  (''expiration'', DateV (Some 1770003600000))]) \<and>
   localStorage (snd (fetchCredentialsFromApi demo_platform with_url (respond partial_text) fresh_page))
     ''awsCredentials'' = Some partial_text"
  by (simp add: demo_facts fetchCredentialsFromApi_def fetch_request_configured respond_def ok_def
      fetch_response_ok setAwsCredentials_def setItem_def log_def List.map_filter_simps
      partial_doc_def field_def)

section \<open>Getting valid credentials\<close>

lemma getValidAwsCredentials_cached:
  assumes "hasValidAwsCredentials P now s"
  shows "getValidAwsCredentials P cfg now outcome s = (Inr (getAwsCredentialsFromStorage P s), s)"
  using assms by (simp add: getValidAwsCredentials_def)

lemma getValidAwsCredentials_unconfigured:
  assumes "\<not> hasValidAwsCredentials P now s" and "\<not> configured cfg"
  shows "getValidAwsCredentials P cfg now outcome s =
           (Inl (Error ''credentialVendingApiUrl is not configured in WebappConfig''),
            log (Error_getting (Error ''credentialVendingApiUrl is not configured in WebappConfig'')) s)"
  using assms
  by (simp add: getValidAwsCredentials_def fetchCredentialsFromApi_def fetch_request_configured)

lemma getValidAwsCredentials_fetched:
  assumes "\<not> hasValidAwsCredentials P now s" and "configured cfg"
  shows "getValidAwsCredentials P cfg now outcome s =
           getValidAwsCredentials_resume P outcome (s\<lparr>network_calls := Suc (network_calls s)\<rparr>)"
  using assms
  by (simp add: getValidAwsCredentials_def getValidAwsCredentials_resume_def
      fetchCredentialsFromApi_def fetch_request_configured)

lemma getValidAwsCredentials_resume_frame:
  assumes "getValidAwsCredentials_resume P outcome s = (r, s')"
  shows "timers s' = timers s \<and> credentialRefreshTimerId s' = credentialRefreshTimerId s \<and>
         next_timer_id s' = next_timer_id s \<and> network_calls s' = network_calls s \<and>
         reloads s' = reloads s"
proof (cases "fetch_response P outcome s")
  case (Pair r0 s0)
  from fetch_response_frame [OF Pair] Pair assms show ?thesis
    by (auto simp: getValidAwsCredentials_resume_def log_def split: sum.splits)
qed

lemma getValidAwsCredentials_frame:
  assumes "getValidAwsCredentials P cfg now outcome s = (r, s')"
  shows "timers s' = timers s \<and> credentialRefreshTimerId s' = credentialRefreshTimerId s \<and>
         next_timer_id s' = next_timer_id s \<and> reloads s' = reloads s"
proof (cases "hasValidAwsCredentials P now s")
  case True
  with assms show ?thesis by (simp add: getValidAwsCredentials_cached)
next
  case False
  show ?thesis
  proof (cases "configured cfg")
    case True
    with False assms getValidAwsCredentials_resume_frame [of P outcome _ r s'] show ?thesis
      by (simp add: getValidAwsCredentials_fetched)
  next
    case False
    with \<open>\<not> hasValidAwsCredentials P now s\<close> assms show ?thesis
      by (auto simp: getValidAwsCredentials_unconfigured log_def)
  qed
qed

lemma getValidAwsCredentials_network_calls:
  "network_calls (snd (getValidAwsCredentials P cfg now outcome s)) =
     (if hasValidAwsCredentials P now s \<or> \<not> configured cfg then network_calls s
      else Suc (network_calls s))"
proof (cases "hasValidAwsCredentials P now s")
  case True
  then show ?thesis by (simp add: getValidAwsCredentials_cached)
next
  case invalid: False
  show ?thesis
  proof (cases "configured cfg")
    case False
    with invalid show ?thesis by (simp add: getValidAwsCredentials_unconfigured log_def)
  next
    case True
    obtain r s' where rs: "getValidAwsCredentials_resume P outcome
        (s\<lparr>network_calls := Suc (network_calls s)\<rparr>) = (r, s')"
      by (cases "getValidAwsCredentials_resume P outcome
        (s\<lparr>network_calls := Suc (network_calls s)\<rparr>)")
    from getValidAwsCredentials_resume_frame [OF rs] rs invalid True show ?thesis
      by (simp add: getValidAwsCredentials_fetched)
  qed
qed

text \<open>
  C5, as amended.  When the endpoint URL is not configured and the stored record does
  not pass the validity check, \<open>getValidAwsCredentials\<close> fails at once with the error
  \<open>credentialVendingApiUrl is not configured in WebappConfig\<close>, logs it, and makes no
  network call; no error raised once a request has been made is equal to it.  (With a
  stored record that passes the check the function returns that record, configured URL
  or not.)
\<close>

theorem getValidAwsCredentials_config_error:
  assumes "\<not> configured cfg" and "\<not> hasValidAwsCredentials P now s"
  shows "fst (getValidAwsCredentials P cfg now outcome s) =
           Inl (Error ''credentialVendingApiUrl is not configured in WebappConfig'') \<and>
         network_calls (snd (getValidAwsCredentials P cfg now outcome s)) = network_calls s \<and>
         localStorage (snd (getValidAwsCredentials P cfg now outcome s)) = localStorage s \<and>
         console (snd (getValidAwsCredentials P cfg now outcome s)) =
           console s @ [Error_getting (Error ''credentialVendingApiUrl is not configured in WebappConfig'')] \<and>
         (\<forall>P' outcome' s0.
            fst (fetch_response P' outcome' s0) \<noteq>
              Inl (Error ''credentialVendingApiUrl is not configured in WebappConfig''))"
  using assms
  by (simp add: getValidAwsCredentials_unconfigured log_def fetch_response_never_config_error)

theorem getValidAwsCredentials_config_error_witness:
  "\<not> configured without_url \<and> \<not> hasValidAwsCredentials demo_platform demo_now fresh_page \<and>
   fst (getValidAwsCredentials demo_platform without_url demo_now Rejected fresh_page) =
     Inl (Error ''credentialVendingApiUrl is not configured in WebappConfig'') \<and>
   network_calls (snd (getValidAwsCredentials demo_platform without_url demo_now Rejected fresh_page)) = 0"
proof -
  have a: "\<not> configured without_url" by (simp add: demo_facts demo_page_facts)
  have b: "\<not> hasValidAwsCredentials demo_platform demo_now fresh_page"
    by (simp add: demo_facts demo_page_facts)
  from getValidAwsCredentials_config_error [OF a b, of Rejected] a b show ?thesis
    by (simp add: fresh_page_def)
qed

text \<open>
  The claim as stated fails: with no URL configured and a stored record that passes the
  validity check, \<open>getValidAwsCredentials\<close> returns the stored record and raises nothing.
\<close>

theorem unconfigured_cache_hit_counterexample:
  "\<not> configured without_url \<and>
   getValidAwsCredentials demo_platform without_url demo_now Rejected cached_page =
     (Inr (Json full_doc), cached_page)"
  by (simp add: demo_facts demo_page_facts getValidAwsCredentials_cached)

lemma fetch_response_success:
  assumes "fetch_response P outcome s = (Inr r, s')"
  shows "\<exists>d ms. d \<noteq> JNull \<and> new_Date P (property (Json d) ''expiration'') = Some ms \<and>
           r = Object [(''accessKeyId'', property (Json d) ''accessKeyId''),
                       (''secretAccessKey'', property (Json d) ''secretAccessKey''),
                       (''sessionToken'', property (Json d) ''sessionToken''),
                       (''expiration'', DateV (Some ms))] \<and>
           s' = setAwsCredentials P r (log (Credentials_obtained (toISOString P ms)) s)"
proof (cases outcome)
  case Rejected
  with assms show ?thesis by (simp add: fetch_response_def)
next
  case (Resolved response)
  show ?thesis
  proof (cases "ok response")
    case False
    with Resolved assms show ?thesis by (simp add: fetch_response_def)
  next
    case True
    from assms show ?thesis
      unfolding Resolved fetch_response_ok [OF True]
      by (auto split: option.splits if_splits)
  qed
qed

lemma field_kept:
  "field (JObj (kept d ''accessKeyId'' @ kept d ''secretAccessKey'' @ kept d ''sessionToken'' @
                [(''expiration'', x)])) ''accessKeyId'' = field d ''accessKeyId''"
  "field (JObj (kept d ''accessKeyId'' @ kept d ''secretAccessKey'' @ kept d ''sessionToken'' @
                [(''expiration'', x)])) ''secretAccessKey'' = field d ''secretAccessKey''"
  "field (JObj (kept d ''accessKeyId'' @ kept d ''secretAccessKey'' @ kept d ''sessionToken'' @
                [(''expiration'', x)])) ''sessionToken'' = field d ''sessionToken''"
  "field (JObj (kept d ''accessKeyId'' @ kept d ''secretAccessKey'' @ kept d ''sessionToken'' @
                [(''expiration'', x)])) ''expiration'' = Some x"
  by (simp_all add: kept_def field_def split: option.splits json.splits)

lemma nullish_property_Json:
  "is_nullish (property (Json d) k) = (\<forall>v. field d k = Some v \<longrightarrow> v = JNull)"
  by (auto simp: property_Json is_nullish_def split: option.splits)

text \<open>The validity check on the store right after a fetched record was written to it.\<close>

lemma stored_fetched_record_valid:
  assumes r: "r = Object [(''accessKeyId'', property (Json d) ''accessKeyId''),
                          (''secretAccessKey'', property (Json d) ''secretAccessKey''),
                          (''sessionToken'', property (Json d) ''sessionToken''),
                          (''expiration'', DateV (Some ms))]"
    and readable: "reads_back P r"
  shows "hasValidAwsCredentials P now' (setAwsCredentials P r s0) =
           (\<not> is_nullish (property r ''accessKeyId'') \<and>
            \<not> is_nullish (property r ''secretAccessKey'') \<and>
            \<not> is_nullish (property r ''sessionToken'') \<and>
            now' + 5 * 60 * 1000 < ms)"
proof -
  let ?j = "JObj (kept d ''accessKeyId'' @ kept d ''secretAccessKey'' @ kept d ''sessionToken'' @
                  [(''expiration'', JStr (toISOString P ms))])"
  have ser: "SerializeJSONProperty P r = Some ?j"
    unfolding r by (rule serialize_credentials)
  from readable have nonempty: "JSON_stringify P ?j \<noteq> []"
    and parse: "JSON_parse P (JSON_stringify P ?j) = Some ?j"
    and date: "Date_parse P (toISOString P ms) = Some ms"
    unfolding reads_back_def ser by (simp_all add: r)
  have store: "localStorage (setAwsCredentials P r s0) ''awsCredentials'' = Some (JSON_stringify P ?j)"
    by (simp add: setAwsCredentials_def ser setItem_def)
  have props: "property r ''accessKeyId'' = property (Json d) ''accessKeyId''"
    "property r ''secretAccessKey'' = property (Json d) ''secretAccessKey''"
    "property r ''sessionToken'' = property (Json d) ''sessionToken''"
    by (simp_all add: r)
  show ?thesis
    unfolding valid_record_read store props nullish_property_Json
    using nonempty parse date
    by (auto simp: field_kept)
qed

text \<open>
  C3, as amended.  If the stored record passes the validity check,
  \<open>getValidAwsCredentials\<close> returns the stored record and leaves the state as it was,
  so it makes no network call.  Otherwise it makes exactly one network call when the
  endpoint URL is configured and none when it is not; and when it returns a record, that
  record is the one now stored, and (on a platform that reads back what it wrote) the
  record passes the validity check at a time \<open>now'\<close> exactly when its \<open>accessKeyId\<close>,
  \<open>secretAccessKey\<close> and \<open>sessionToken\<close> are not null or undefined and
  \<open>now' + 5 min\<close> is before its expiration.
\<close>

theorem getValidAwsCredentials_paths:
  "(hasValidAwsCredentials P now s \<longrightarrow>
      getValidAwsCredentials P cfg now outcome s = (Inr (getAwsCredentialsFromStorage P s), s)) \<and>
   (\<not> hasValidAwsCredentials P now s \<longrightarrow>
      network_calls (snd (getValidAwsCredentials P cfg now outcome s)) =
        (if configured cfg then Suc (network_calls s) else network_calls s) \<and>
      (\<forall>r s'. getValidAwsCredentials P cfg now outcome s = (Inr r, s') \<longrightarrow>
         (\<exists>j. SerializeJSONProperty P r = Some j \<and>
              localStorage s' ''awsCredentials'' = Some (JSON_stringify P j)) \<and>
         (reads_back P r \<longrightarrow>
            (\<forall>now'. hasValidAwsCredentials P now' s' =
               (\<not> is_nullish (property r ''accessKeyId'') \<and>
                \<not> is_nullish (property r ''secretAccessKey'') \<and>
                \<not> is_nullish (property r ''sessionToken'') \<and>
                (\<exists>e. property r ''expiration'' = DateV (Some e) \<and> now' + 5 * 60 * 1000 < e))))))"
proof (intro conjI impI allI)
  assume "hasValidAwsCredentials P now s"
  then show "getValidAwsCredentials P cfg now outcome s = (Inr (getAwsCredentialsFromStorage P s), s)"
    by (rule getValidAwsCredentials_cached)
next
  assume "\<not> hasValidAwsCredentials P now s"
  then show "network_calls (snd (getValidAwsCredentials P cfg now outcome s)) =
        (if configured cfg then Suc (network_calls s) else network_calls s)"
    by (simp add: getValidAwsCredentials_network_calls)
next
  fix r s'
  assume invalid: "\<not> hasValidAwsCredentials P now s"
    and result: "getValidAwsCredentials P cfg now outcome s = (Inr r, s')"
  have cfg: "configured cfg"
  proof (rule ccontr)
    assume "\<not> configured cfg"
    with invalid result show False by (simp add: getValidAwsCredentials_unconfigured)
  qed
  let ?s0 = "s\<lparr>network_calls := Suc (network_calls s)\<rparr>"
  from invalid cfg result have "getValidAwsCredentials_resume P outcome ?s0 = (Inr r, s')"
    by (simp add: getValidAwsCredentials_fetched)
  then have "fetch_response P outcome ?s0 = (Inr r, s')"
    by (auto simp: getValidAwsCredentials_resume_def split: prod.splits sum.splits)
  from fetch_response_success [OF this] obtain d ms where
    r: "r = Object [(''accessKeyId'', property (Json d) ''accessKeyId''),
                    (''secretAccessKey'', property (Json d) ''secretAccessKey''),
                    (''sessionToken'', property (Json d) ''sessionToken''),
                    (''expiration'', DateV (Some ms))]"
    and s': "s' = setAwsCredentials P r (log (Credentials_obtained (toISOString P ms)) ?s0)"
    by blast
  have ser: "SerializeJSONProperty P r =
      Some (JObj (kept d ''accessKeyId'' @ kept d ''secretAccessKey'' @ kept d ''sessionToken'' @
                  [(''expiration'', JStr (toISOString P ms))]))"
    unfolding r by (rule serialize_credentials)
  show "\<exists>j. SerializeJSONProperty P r = Some j \<and>
              localStorage s' ''awsCredentials'' = Some (JSON_stringify P j)"
    unfolding s' by (simp add: setAwsCredentials_def ser setItem_def)
  {
    fix now'
    assume readable: "reads_back P r"
    have expiration: "property r ''expiration'' = DateV (Some ms)" by (simp add: r)
    show "hasValidAwsCredentials P now' s' =
               (\<not> is_nullish (property r ''accessKeyId'') \<and>
                \<not> is_nullish (property r ''secretAccessKey'') \<and>
                \<not> is_nullish (property r ''sessionToken'') \<and>
                (\<exists>e. property r ''expiration'' = DateV (Some e) \<and> now' + 5 * 60 * 1000 < e))"
      unfolding s' stored_fetched_record_valid [OF r readable] expiration by simp
  }
qed

lemma fetch_on_fresh_page:
  assumes "JSON_parse demo_platform text = Some d" and "d \<noteq> JNull"
    and "new_Date demo_platform (property (Json d) ''expiration'') = Some ms"
  shows "getValidAwsCredentials demo_platform with_url now (respond text) fresh_page =
     (Inr (Object [(''accessKeyId'', property (Json d) ''accessKeyId''),
                   (''secretAccessKey'', property (Json d) ''secretAccessKey''),
                   (''sessionToken'', property (Json d) ''sessionToken''),
                   (''expiration'', DateV (Some ms))]),
      setAwsCredentials demo_platform
        (Object [(''accessKeyId'', property (Json d) ''accessKeyId''),
                 (''secretAccessKey'', property (Json d) ''secretAccessKey''),
                 (''sessionToken'', property (Json d) ''sessionToken''),
                 (''expiration'', DateV (Some ms))])
        (log (Credentials_obtained (toISOString demo_platform ms))
          (fresh_page\<lparr>network_calls := Suc (network_calls fresh_page)\<rparr>)))"
  using assms
  by (simp add: demo_facts demo_page_facts getValidAwsCredentials_fetched
      getValidAwsCredentials_resume_def respond_def
      fetch_response_ok ok_def)

lemma demo_reads_back:
  "reads_back demo_platform
     (Object [(''accessKeyId'', Json (JStr ''ASIAEXAMPLE'')),
              (''secretAccessKey'', Json (JStr ''secret'')),
              (''sessionToken'', Json (JStr ''token'')),
              (''expiration'', DateV (Some 1770003600000))])"
  "reads_back demo_platform
     (Object [(''accessKeyId'', Json (JStr ''ASIAEXAMPLE'')),
              (''secretAccessKey'', Json (JStr ''secret'')),
              (''sessionToken'', Json (JStr ''token'')),
              (''expiration'', DateV (Some 1770000060000))])"
  by (simp_all add: demo_facts reads_back_def List.map_filter_simps full_doc_def short_doc_def)

theorem getValidAwsCredentials_paths_witness:
  "hasValidAwsCredentials demo_platform demo_now cached_page \<and>
   getValidAwsCredentials demo_platform with_url demo_now Rejected cached_page =
     (Inr (Json full_doc), cached_page) \<and>
   \<not> hasValidAwsCredentials demo_platform demo_now fresh_page \<and>
   network_calls (snd (getValidAwsCredentials demo_platform with_url demo_now (respond full_text) fresh_page)) = 1 \<and>
   fst (getValidAwsCredentials demo_platform with_url demo_now (respond full_text) fresh_page) =
     Inr (Object [(''accessKeyId'', Json (JStr ''ASIAEXAMPLE'')),
                  (''secretAccessKey'', Json (JStr ''secret'')),
                  (''sessionToken'', Json (JStr ''token'')),
                  (''expiration'', DateV (Some 1770003600000))]) \<and>
   localStorage (snd (getValidAwsCredentials demo_platform with_url demo_now (respond full_text) fresh_page))
     ''awsCredentials'' = Some full_text \<and>
   hasValidAwsCredentials demo_platform demo_now
     (snd (getValidAwsCredentials demo_platform with_url demo_now (respond full_text) fresh_page))"
proof -
  let ?r = "Object [(''accessKeyId'', Json (JStr ''ASIAEXAMPLE'')),
                    (''secretAccessKey'', Json (JStr ''secret'')),
                    (''sessionToken'', Json (JStr ''token'')),
                    (''expiration'', DateV (Some 1770003600000))]"
  obtain s' where fetched:
    "getValidAwsCredentials demo_platform with_url demo_now (respond full_text) fresh_page = (Inr ?r, s')"
    using fetch_on_fresh_page [of full_text full_doc 1770003600000 demo_now]
    by (simp add: demo_facts demo_page_facts full_doc_def)
  have invalid: "\<not> hasValidAwsCredentials demo_platform demo_now fresh_page"
    by (simp add: demo_facts demo_page_facts)
  from getValidAwsCredentials_paths [of demo_platform demo_now cached_page with_url Rejected]
  have cached: "getValidAwsCredentials demo_platform with_url demo_now Rejected cached_page =
      (Inr (Json full_doc), cached_page)"
    by (simp add: demo_facts demo_page_facts)
  note paths = getValidAwsCredentials_paths
    [of demo_platform demo_now fresh_page with_url "respond full_text"]
  from paths invalid
  have calls: "network_calls (snd (getValidAwsCredentials demo_platform with_url demo_now
      (respond full_text) fresh_page)) = Suc (network_calls fresh_page)"
    by (simp add: demo_facts demo_page_facts)
  from paths invalid
  have fetched_record: "(\<exists>j. SerializeJSONProperty demo_platform ?r = Some j \<and>
        localStorage s' ''awsCredentials'' = Some (JSON_stringify demo_platform j)) \<and>
      (reads_back demo_platform ?r \<longrightarrow>
        (\<forall>now'. hasValidAwsCredentials demo_platform now' s' =
           (\<not> is_nullish (property ?r ''accessKeyId'') \<and>
            \<not> is_nullish (property ?r ''secretAccessKey'') \<and>
            \<not> is_nullish (property ?r ''sessionToken'') \<and>
            (\<exists>e. property ?r ''expiration'' = DateV (Some e) \<and> now' + 5 * 60 * 1000 < e))))"
    unfolding fetched by blast
  from fetched_record have stored: "localStorage s' ''awsCredentials'' = Some full_text"
    by (simp add: demo_facts demo_page_facts List.map_filter_simps)
  from fetched_record demo_reads_back(1)
  have valid: "hasValidAwsCredentials demo_platform demo_now s'"
    by (simp add: is_nullish_def demo_now_def)
  from calls have calls': "network_calls (snd (getValidAwsCredentials demo_platform with_url demo_now
      (respond full_text) fresh_page)) = 1"
    by (simp add: fresh_page_def)
  from cached invalid calls' stored valid show ?thesis
    by (simp add: demo_facts demo_page_facts fetched)
qed

text \<open>
  The claim as stated fails twice.  A fetch that succeeds with credentials expiring one
  minute from now makes one network call and returns a record that is stored and does
  not pass the validity check; and with no URL configured a miss makes no network call.
\<close>

theorem getValidAwsCredentials_counterexample:
  "\<not> hasValidAwsCredentials demo_platform demo_now fresh_page \<and>
   fst (getValidAwsCredentials demo_platform with_url demo_now (respond short_text) fresh_page) =
     Inr (Object [(''accessKeyId'', Json (JStr ''ASIAEXAMPLE'')),
                  (''secretAccessKey'', Json (JStr ''secret'')),
                  (''sessionToken'', Json (JStr ''token'')),
                  (''expiration'', DateV (Some 1770000060000))]) \<and>
   network_calls (snd (getValidAwsCredentials demo_platform with_url demo_now (respond short_text) fresh_page)) = 1 \<and>
   localStorage (snd (getValidAwsCredentials demo_platform with_url demo_now (respond short_text) fresh_page))
     ''awsCredentials'' = Some short_text \<and>
   \<not> hasValidAwsCredentials demo_platform demo_now
     (snd (getValidAwsCredentials demo_platform with_url demo_now (respond short_text) fresh_page)) \<and>
   network_calls (snd (getValidAwsCredentials demo_platform without_url demo_now Rejected fresh_page)) = 0"
proof -
  let ?r = "Object [(''accessKeyId'', Json (JStr ''ASIAEXAMPLE'')),
                    (''secretAccessKey'', Json (JStr ''secret'')),
                    (''sessionToken'', Json (JStr ''token'')),
                    (''expiration'', DateV (Some 1770000060000))]"
  have fetched:
    "getValidAwsCredentials demo_platform with_url demo_now (respond short_text) fresh_page =
       (Inr ?r, setAwsCredentials demo_platform ?r
          (log (Credentials_obtained ''2026-02-02T02:41:00.000Z'')
            (fresh_page\<lparr>network_calls := Suc (network_calls fresh_page)\<rparr>)))"
    using fetch_on_fresh_page [of short_text short_doc 1770000060000 demo_now]
    by (simp add: demo_facts demo_page_facts short_doc_def)
  have stale: "\<not> hasValidAwsCredentials demo_platform demo_now
      (setAwsCredentials demo_platform ?r
          (log (Credentials_obtained ''2026-02-02T02:41:00.000Z'')
            (fresh_page\<lparr>network_calls := Suc (network_calls fresh_page)\<rparr>)))"
    using stored_fetched_record_valid
      [OF _ demo_reads_back(2), where d = short_doc and ms = 1770000060000 and now' = demo_now]
    by (simp add: short_doc_def demo_now_def)
  have calls: "network_calls (setAwsCredentials demo_platform ?r
          (log (Credentials_obtained ''2026-02-02T02:41:00.000Z'')
            (fresh_page\<lparr>network_calls := Suc (network_calls fresh_page)\<rparr>))) = 1"
    by (simp add: setAwsCredentials_def setItem_def log_def fresh_page_def)
  have stored: "localStorage (setAwsCredentials demo_platform ?r
          (log (Credentials_obtained ''2026-02-02T02:41:00.000Z'')
            (fresh_page\<lparr>network_calls := Suc (network_calls fresh_page)\<rparr>)))
        ''awsCredentials'' = Some short_text"
    by (simp add: demo_facts demo_page_facts setAwsCredentials_def setItem_def
        List.map_filter_simps)
  have none: "network_calls (snd (getValidAwsCredentials demo_platform without_url demo_now
      Rejected fresh_page)) = 0"
    by (simp add: demo_facts demo_page_facts getValidAwsCredentials_network_calls fresh_page_def)
  from stale calls stored none show ?thesis
    by (simp add: demo_facts demo_page_facts fetched)
qed

lemma read_after_write:
  assumes r: "r = Object [(''accessKeyId'', property (Json d) ''accessKeyId''),
                          (''secretAccessKey'', property (Json d) ''secretAccessKey''),
                          (''sessionToken'', property (Json d) ''sessionToken''),
                          (''expiration'', DateV (Some ms))]"
    and readable: "reads_back P r"
  shows "getAwsCredentialsFromStorage P (setAwsCredentials P r s0) =
           Json (JObj (kept d ''accessKeyId'' @ kept d ''secretAccessKey'' @ kept d ''sessionToken'' @
                       [(''expiration'', JStr (toISOString P ms))]))"
proof -
  have ser: "SerializeJSONProperty P r =
      Some (JObj (kept d ''accessKeyId'' @ kept d ''secretAccessKey'' @ kept d ''sessionToken'' @
                  [(''expiration'', JStr (toISOString P ms))]))"
    unfolding r by (rule serialize_credentials)
  from readable show ?thesis
    unfolding reads_back_def ser
    by (simp add: getAwsCredentialsFromStorage_def setAwsCredentials_def ser setItem_def)
qed

text \<open>
  C10.  The record \<open>getValidAwsCredentials\<close> returns has a shape that depends on the
  path.  On a cache hit it is the parsed stored JSON value, whose \<open>expiration\<close> is the
  JSON value stored; on the fetch path it is the object just built, whose \<open>expiration\<close>
  is a \<open>Date\<close>, so it is no parsed JSON value.  In particular, when a fetched record is
  read back by a later call that hits the cache, the first call returned the expiration
  as a \<open>Date\<close> and the second returns it as the ISO string of that date: the two
  records differ.
\<close>

theorem getValidAwsCredentials_shape:
  "(hasValidAwsCredentials P now s \<longrightarrow>
      (\<exists>j x. fst (getValidAwsCredentials P cfg now outcome s) = Inr (Json j) \<and>
             field j ''expiration'' = Some x \<and> property (Json j) ''expiration'' = Json x)) \<and>
   (\<not> hasValidAwsCredentials P now s \<longrightarrow>
      (\<forall>r s'. getValidAwsCredentials P cfg now outcome s = (Inr r, s') \<longrightarrow>
         (\<exists>ms. property r ''expiration'' = DateV (Some ms) \<and>
            (\<forall>j. r \<noteq> Json j) \<and>
            (reads_back P r \<and> hasValidAwsCredentials P now' s' \<longrightarrow>
               (\<exists>j. getValidAwsCredentials P cfg' now' outcome' s' = (Inr (Json j), s') \<and>
                    property (Json j) ''expiration'' = Json (JStr (toISOString P ms)) \<and>
                    Json j \<noteq> r)))))"
proof (intro conjI impI allI)
  assume valid: "hasValidAwsCredentials P now s"
  then obtain stored j x where "localStorage s ''awsCredentials'' = Some stored" "stored \<noteq> []"
    "JSON_parse P stored = Some j" "field j ''expiration'' = Some x"
    unfolding valid_record_read by blast
  then have "getAwsCredentialsFromStorage P s = Json j" "property (Json j) ''expiration'' = Json x"
    by (simp_all add: getAwsCredentialsFromStorage_def property_Json)
  with valid \<open>field j ''expiration'' = Some x\<close>
  show "\<exists>j x. fst (getValidAwsCredentials P cfg now outcome s) = Inr (Json j) \<and>
             field j ''expiration'' = Some x \<and> property (Json j) ''expiration'' = Json x"
    by (simp add: getValidAwsCredentials_cached)
next
  fix r s'
  assume invalid: "\<not> hasValidAwsCredentials P now s"
    and result: "getValidAwsCredentials P cfg now outcome s = (Inr r, s')"
  have cfg: "configured cfg"
  proof (rule ccontr)
    assume "\<not> configured cfg"
    with invalid result show False by (simp add: getValidAwsCredentials_unconfigured)
  qed
  let ?s0 = "s\<lparr>network_calls := Suc (network_calls s)\<rparr>"
  from invalid cfg result have "getValidAwsCredentials_resume P outcome ?s0 = (Inr r, s')"
    by (simp add: getValidAwsCredentials_fetched)
  then have "fetch_response P outcome ?s0 = (Inr r, s')"
    by (auto simp: getValidAwsCredentials_resume_def split: prod.splits sum.splits)
  from fetch_response_success [OF this] obtain d ms where
    r: "r = Object [(''accessKeyId'', property (Json d) ''accessKeyId''),
                    (''secretAccessKey'', property (Json d) ''secretAccessKey''),
                    (''sessionToken'', property (Json d) ''sessionToken''),
                    (''expiration'', DateV (Some ms))]"
    and s': "s' = setAwsCredentials P r (log (Credentials_obtained (toISOString P ms)) ?s0)"
    by blast
  have expiration: "property r ''expiration'' = DateV (Some ms)" by (simp add: r)
  have no_json: "\<forall>j. r \<noteq> Json j" by (simp add: r)
  {
    assume again: "reads_back P r \<and> hasValidAwsCredentials P now' s'"
    let ?j = "JObj (kept d ''accessKeyId'' @ kept d ''secretAccessKey'' @ kept d ''sessionToken'' @
                    [(''expiration'', JStr (toISOString P ms))])"
    from again have "getAwsCredentialsFromStorage P s' = Json ?j"
      unfolding s' by (simp add: read_after_write [OF r])
    with again have "getValidAwsCredentials P cfg' now' outcome' s' = (Inr (Json ?j), s')"
      by (simp add: getValidAwsCredentials_cached)
    moreover have "property (Json ?j) ''expiration'' = Json (JStr (toISOString P ms))"
      by (simp add: property_Json field_kept)
    moreover have "Json ?j \<noteq> r" by (simp add: r)
    ultimately have "\<exists>j. getValidAwsCredentials P cfg' now' outcome' s' = (Inr (Json j), s') \<and>
                    property (Json j) ''expiration'' = Json (JStr (toISOString P ms)) \<and>
                    Json j \<noteq> r"
      by blast
  }
  with expiration no_json
  show "\<exists>ms. property r ''expiration'' = DateV (Some ms) \<and>
            (\<forall>j. r \<noteq> Json j) \<and>
            (reads_back P r \<and> hasValidAwsCredentials P now' s' \<longrightarrow>
               (\<exists>j. getValidAwsCredentials P cfg' now' outcome' s' = (Inr (Json j), s') \<and>
                    property (Json j) ''expiration'' = Json (JStr (toISOString P ms)) \<and>
                    Json j \<noteq> r))"
    by blast
qed

theorem getValidAwsCredentials_shape_witness:
  "fst (getValidAwsCredentials demo_platform with_url demo_now (respond full_text) fresh_page) =
     Inr (Object [(''accessKeyId'', Json (JStr ''ASIAEXAMPLE'')),
                  (''secretAccessKey'', Json (JStr ''secret'')),
                  (''sessionToken'', Json (JStr ''token'')),
                  (''expiration'', DateV (Some 1770003600000))]) \<and>
   fst (getValidAwsCredentials demo_platform with_url demo_now Rejected
          (snd (getValidAwsCredentials demo_platform with_url demo_now (respond full_text) fresh_page))) =
     Inr (Json (JObj [(''accessKeyId'', JStr ''ASIAEXAMPLE''),
                      (''secretAccessKey'', JStr ''secret''),
                      (''sessionToken'', JStr ''token''),
                      (''expiration'', JStr ''2026-02-02T03:40:00.000Z'')])) \<and>
   fst (getValidAwsCredentials demo_platform with_url demo_now Rejected cached_page) =
     Inr (Json full_doc)"
proof -
  let ?r = "Object [(''accessKeyId'', Json (JStr ''ASIAEXAMPLE'')),
                    (''secretAccessKey'', Json (JStr ''secret'')),
                    (''sessionToken'', Json (JStr ''token'')),
                    (''expiration'', DateV (Some 1770003600000))]"
  let ?s' = "setAwsCredentials demo_platform ?r
          (log (Credentials_obtained ''2026-02-02T03:40:00.000Z'')
            (fresh_page\<lparr>network_calls := Suc (network_calls fresh_page)\<rparr>))"
  have fetched:
    "getValidAwsCredentials demo_platform with_url demo_now (respond full_text) fresh_page = (Inr ?r, ?s')"
    using fetch_on_fresh_page [of full_text full_doc 1770003600000 demo_now]
    by (simp add: demo_facts demo_page_facts full_doc_def)
  have valid: "hasValidAwsCredentials demo_platform demo_now ?s'"
    using stored_fetched_record_valid
      [OF _ demo_reads_back(1), where d = full_doc and ms = 1770003600000 and now' = demo_now]
    by (simp add: full_doc_def demo_now_def is_nullish_def)
  have invalid: "\<not> hasValidAwsCredentials demo_platform demo_now fresh_page"
    by (simp add: demo_facts demo_page_facts)
  from getValidAwsCredentials_shape
    [of demo_platform demo_now fresh_page with_url "respond full_text" demo_now with_url Rejected]
  have "\<exists>j. getValidAwsCredentials demo_platform with_url demo_now Rejected ?s' = (Inr (Json j), ?s') \<and>
            property (Json j) ''expiration'' = Json (JStr ''2026-02-02T03:40:00.000Z'')"
    using invalid demo_reads_back(1) valid unfolding fetched
      by (auto simp: demo_facts demo_page_facts)
  moreover have "getAwsCredentialsFromStorage demo_platform ?s' = Json full_doc"
    by (simp add: demo_facts demo_page_facts getAwsCredentialsFromStorage_def
        setAwsCredentials_def setItem_def
        List.map_filter_simps)
  ultimately have second: "fst (getValidAwsCredentials demo_platform with_url demo_now Rejected ?s') =
      Inr (Json full_doc)"
    using valid by (simp add: getValidAwsCredentials_cached)
  from getValidAwsCredentials_shape
    [of demo_platform demo_now cached_page with_url Rejected]
  have cached: "fst (getValidAwsCredentials demo_platform with_url demo_now Rejected cached_page) =
      Inr (Json full_doc)"
    by (simp add: demo_facts demo_page_facts getValidAwsCredentials_cached)
  from second cached show ?thesis
    by (simp add: fetched full_doc_def)
qed

section \<open>The refresh timer\<close>

lemma stored_expiration_read:
  "opt_chain (getAwsCredentialsFromStorage P s) ''expiration'' =
     (case stored_expiration P s of None \<Rightarrow> Undefined | Some x \<Rightarrow> Json x)"
  "truthy (opt_chain (getAwsCredentialsFromStorage P s) ''expiration'') \<Longrightarrow>
     property (getAwsCredentialsFromStorage P s) ''expiration'' =
       (case stored_expiration P s of None \<Rightarrow> Undefined | Some x \<Rightarrow> Json x)"
  by (auto simp: getAwsCredentialsFromStorage_def stored_expiration_def opt_chain_def
      is_nullish_def property_Json field_def split: option.splits)

text \<open>The state \<open>startCredentialRefreshTimer\<close> leaves, field by field.\<close>

lemma startCredentialRefreshTimer_fields:
  "credentialRefreshTimerId (startCredentialRefreshTimer P now s) = Some (next_timer_id s)"
  "next_timer_id (startCredentialRefreshTimer P now s) = Suc (next_timer_id s)"
  "localStorage (startCredentialRefreshTimer P now s) = localStorage s"
  "network_calls (startCredentialRefreshTimer P now s) = network_calls s"
  "reloads (startCredentialRefreshTimer P now s) = reloads s"
  by (auto simp: startCredentialRefreshTimer_def Let_def setTimeout_def clearTimeout_def log_def
      split: option.splits)

lemma startCredentialRefreshTimer_timers:
  "timers (startCredentialRefreshTimer P now s) =
     (case credentialRefreshTimerId s of
        None \<Rightarrow> timers s
      | Some i \<Rightarrow> if i \<noteq> 0 then (timers s)(i := None) else timers s)
     (next_timer_id s \<mapsto>
        (case stored_expiration P s of
           None \<Rightarrow> \<lparr>delay = Some 2000, callback = PreFetch\<rparr>
         | Some x \<Rightarrow>
             if truthy (Json x)
             then \<lparr>delay = map_option (\<lambda>e. max 0 (e - now - 5 * 60 * 1000)) (new_Date P (Json x)),
                   callback = Refresh\<rparr>
             else \<lparr>delay = Some 2000, callback = PreFetch\<rparr>))"
proof -
  let ?s1 = "case credentialRefreshTimerId s of
               None \<Rightarrow> s
             | Some i \<Rightarrow> if i \<noteq> 0 then clearTimeout i s else s"
  have read: "getAwsCredentialsFromStorage P ?s1 = getAwsCredentialsFromStorage P s"
    "stored_expiration P ?s1 = stored_expiration P s"
    by (simp_all add: state_facts split: option.splits)
  have clamp: "map_option (\<lambda>r. if r < 0 then 0 else r) (map_option (\<lambda>e. e - now - 5 * 60 * 1000) t) =
      map_option (\<lambda>e. max 0 (e - now - 5 * 60 * 1000)) t" for t :: "int option"
    by (cases t) (auto simp: max_def)
  show ?thesis
  proof (cases "truthy (opt_chain (getAwsCredentialsFromStorage P s) ''expiration'')")
    case False
    then show ?thesis
      unfolding startCredentialRefreshTimer_def Let_def read
      by (auto simp: stored_expiration_read(1) setTimeout_def clearTimeout_def
          split: option.splits)
  next
    case True
    from True stored_expiration_read(2) [OF True] show ?thesis
      unfolding startCredentialRefreshTimer_def Let_def read clamp
      by (auto simp: stored_expiration_read(1) setTimeout_def clearTimeout_def log_def
          split: option.splits)
  qed
qed

text \<open>
  C7, as amended.  \<open>startCredentialRefreshTimer\<close> arms one timer and keeps its
  identifier.  When the stored record has an \<open>expiration\<close> that is truthy (the test of
  line 101) and a date, the delay is the time value of the expiration minus \<open>now\<close>
  minus the five-minute buffer, and 0 when that is negative; the timer is the refresh
  timer.  When no record is stored (the key is absent, or its text is empty or does not
  parse), or the record has no \<open>expiration\<close>, or a falsy one (\<open>null\<close>, \<open>0\<close>,
  \<open>false\<close>, the empty string), the timer is the pre-fetch timer with the fixed delay of
  2000 ms.  When the \<open>expiration\<close> is truthy and no date, the timer is the refresh
  timer and the delay handed to \<open>setTimeout\<close> is \<open>NaN\<close>.
\<close>

theorem startCredentialRefreshTimer_delay:
  "credentialRefreshTimerId (startCredentialRefreshTimer P now s) = Some (next_timer_id s) \<and>
   timers (startCredentialRefreshTimer P now s) (next_timer_id s) =
     Some (case stored_expiration P s of
             None \<Rightarrow> \<lparr>delay = Some 2000, callback = PreFetch\<rparr>
           | Some x \<Rightarrow>
               if truthy (Json x)
               then \<lparr>delay = map_option (\<lambda>e. max 0 (e - now - 5 * 60 * 1000)) (new_Date P (Json x)),
                     callback = Refresh\<rparr>
               else \<lparr>delay = Some 2000, callback = PreFetch\<rparr>)"
  by (simp add: startCredentialRefreshTimer_fields startCredentialRefreshTimer_timers)

text \<open>
  A record expiring an hour from now arms the refresh timer with 55 minutes; ten minutes
  before its expiration, with five minutes (the scenario of the specification); two
  minutes before it, with 0; and on a page with nothing stored the pre-fetch timer is
  armed with two seconds.
\<close>

theorem startCredentialRefreshTimer_delay_witness:
  "timers (startCredentialRefreshTimer demo_platform demo_now cached_page) 1 =
     Some \<lparr>delay = Some (55 * 60 * 1000), callback = Refresh\<rparr> \<and>
   timers (startCredentialRefreshTimer demo_platform (demo_now + 50 * 60 * 1000) cached_page) 1 =
     Some \<lparr>delay = Some (5 * 60 * 1000), callback = Refresh\<rparr> \<and>
   timers (startCredentialRefreshTimer demo_platform (demo_now + 58 * 60 * 1000) cached_page) 1 =
     Some \<lparr>delay = Some 0, callback = Refresh\<rparr> \<and>
   timers (startCredentialRefreshTimer demo_platform demo_now fresh_page) 1 =
     Some \<lparr>delay = Some 2000, callback = PreFetch\<rparr>"
proof -
  have next_id: "next_timer_id cached_page = 1" "next_timer_id fresh_page = 1"
    by (simp_all add: cached_page_def fresh_page_def)
  have stored: "stored_expiration demo_platform cached_page = Some (JStr ''2026-02-02T03:40:00.000Z'')"
    "stored_expiration demo_platform fresh_page = None"
    by (simp_all add: demo_facts stored_expiration_def cached_page_def fresh_page_def full_doc_def
        field_def)
  from startCredentialRefreshTimer_delay [of demo_platform demo_now cached_page]
    startCredentialRefreshTimer_delay [of demo_platform "demo_now + 50 * 60 * 1000" cached_page]
    startCredentialRefreshTimer_delay [of demo_platform "demo_now + 58 * 60 * 1000" cached_page]
    startCredentialRefreshTimer_delay [of demo_platform demo_now fresh_page]
  show ?thesis
    unfolding next_id stored by (simp add: demo_facts demo_now_def)
qed

text \<open>
  The claim as stated fails for a stored record that has an expiration the module's test
  does not accept.  With the expiration 0 (the time value of 1970-01-01, for which the
  claimed delay is 0) the pre-fetch timer is armed with 2000 ms; with an expiration that
  is no date the refresh timer is armed with the delay \<open>NaN\<close>, which is neither the
  clamped difference nor the 2000 ms.
\<close>

theorem startCredentialRefreshTimer_delay_counterexample:
  "stored_expiration demo_platform epoch_page = Some (JNum 0) \<and>
   new_Date demo_platform (Json (JNum 0)) = Some 0 \<and>
   timers (startCredentialRefreshTimer demo_platform demo_now epoch_page) 1 =
     Some \<lparr>delay = Some 2000, callback = PreFetch\<rparr> \<and>
   stored_expiration demo_platform garbage_page = Some (JStr ''garbage'') \<and>
   new_Date demo_platform (Json (JStr ''garbage'')) = None \<and>
   timers (startCredentialRefreshTimer demo_platform demo_now garbage_page) 1 =
     Some \<lparr>delay = None, callback = Refresh\<rparr>"
proof -
  have next_id: "next_timer_id epoch_page = 1" "next_timer_id garbage_page = 1"
    by (simp_all add: epoch_page_def garbage_page_def fresh_page_def)
  have stored: "stored_expiration demo_platform epoch_page = Some (JNum 0)"
    "stored_expiration demo_platform garbage_page = Some (JStr ''garbage'')"
    by (simp_all add: demo_facts stored_expiration_def epoch_page_def garbage_page_def
        fresh_page_def epoch_doc_def garbage_doc_def field_def)
  have dates: "new_Date demo_platform (Json (JNum 0)) = Some 0"
    "new_Date demo_platform (Json (JStr ''garbage'')) = None"
    by (simp_all add: demo_facts TimeClip_def)
  have armed: "timers (startCredentialRefreshTimer demo_platform demo_now epoch_page) 1 =
      Some \<lparr>delay = Some 2000, callback = PreFetch\<rparr>"
    "timers (startCredentialRefreshTimer demo_platform demo_now garbage_page) 1 =
      Some \<lparr>delay = None, callback = Refresh\<rparr>"
    unfolding startCredentialRefreshTimer_timers next_id stored
    by (simp_all add: demo_facts)
  from stored dates armed show ?thesis by blast
qed

section \<open>A timer fires\<close>

lemma hasValidAwsCredentials_store:
  assumes "localStorage s' = localStorage s"
  shows "hasValidAwsCredentials P now s' = hasValidAwsCredentials P now s"
  using assms by (simp add: valid_record_read)

lemma removed_invalid:
  "\<not> hasValidAwsCredentials P now (removeItem ''awsCredentials'' s)"
  by (simp add: valid_record_read removeItem_def)

lemma getValidAwsCredentials_error_keeps_store:
  assumes "getValidAwsCredentials P cfg now outcome s = (Inl e, s')"
  shows "localStorage s' = localStorage s"
proof (cases "hasValidAwsCredentials P now s")
  case True
  with assms show ?thesis by (simp add: getValidAwsCredentials_cached)
next
  case invalid: False
  show ?thesis
  proof (cases "configured cfg")
    case False
    with invalid assms show ?thesis
      by (auto simp: getValidAwsCredentials_unconfigured log_def)
  next
    case True
    let ?s0 = "s\<lparr>network_calls := Suc (network_calls s)\<rparr>"
    obtain r0 s0 where f: "fetch_response P outcome ?s0 = (r0, s0)"
      by (cases "fetch_response P outcome ?s0")
    with invalid True assms have "r0 = Inl e" "s' = log (Error_getting e) s0"
      by (auto simp: getValidAwsCredentials_fetched getValidAwsCredentials_resume_def
          split: sum.splits)
    with f fetch_response_error_keeps_store [of P outcome ?s0 e s0] show ?thesis
      by (simp add: log_def)
  qed
qed

lemma callbacks_continue:
  "prefetch_callback P cfg now outcome now' s =
     callback_continue P PreFetch now' (fst (getValidAwsCredentials P cfg now outcome s))
       (snd (getValidAwsCredentials P cfg now outcome s))"
  "refresh_callback P cfg now outcome now' s =
     callback_continue P Refresh now'
       (fst (getValidAwsCredentials P cfg now outcome (removeItem ''awsCredentials'' s)))
       (snd (getValidAwsCredentials P cfg now outcome (removeItem ''awsCredentials'' s)))"
  by (simp_all add: prefetch_callback_def refresh_callback_def callback_continue_def
      split: prod.splits sum.splits)

lemma fire_continue:
  assumes "timers s i = Some t"
  shows "fire P cfg i now outcome now' s =
     Some (callback_continue P (callback t) now'
       (fst (getValidAwsCredentials P cfg now outcome
               (case callback t of PreFetch \<Rightarrow> clearTimeout i s
                                 | Refresh \<Rightarrow> removeItem ''awsCredentials'' (clearTimeout i s))))
       (snd (getValidAwsCredentials P cfg now outcome
               (case callback t of PreFetch \<Rightarrow> clearTimeout i s
                                 | Refresh \<Rightarrow> removeItem ''awsCredentials'' (clearTimeout i s)))))"
  using assms by (simp add: fire_def callbacks_continue split: callback.splits)

lemma callback_continue_fields:
  "network_calls (callback_continue P cb now' r s) = network_calls s"
  "localStorage (callback_continue P cb now' r s) = localStorage s"
  "reloads (callback_continue P cb now' r s) = reloads s"
  by (simp_all add: callback_continue_def startCredentialRefreshTimer_fields log_def
      split: sum.splits)

text \<open>
  C8.  A timer armed by \<open>startCredentialRefreshTimer\<close> is the refresh timer exactly
  when it was armed from a stored expiration.  When a refresh timer fires, its callback
  calls \<open>getValidAwsCredentials\<close> on the store with the record removed: the validity
  check fails there, so the call is a fetch and never a cache hit (one network call when
  the URL is configured, even if the record stored before was valid), and if the fetch
  fails the record stays deleted.  When the pre-fetch timer fires, its callback calls
  \<open>getValidAwsCredentials\<close> on the store as it is: a valid stored record is used, with
  no network call and the store unchanged.
\<close>

theorem refresh_fire_deletes_record:
  assumes "timers s i = Some t"
  shows "(callback (the (timers (startCredentialRefreshTimer P now0 s0) (next_timer_id s0))) = Refresh)
           = (\<exists>x. stored_expiration P s0 = Some x \<and> truthy (Json x)) \<and>
    (callback t = Refresh \<longrightarrow>
       fire P cfg i now outcome now' s =
         Some (callback_continue P Refresh now'
           (fst (getValidAwsCredentials P cfg now outcome (removeItem ''awsCredentials'' (clearTimeout i s))))
           (snd (getValidAwsCredentials P cfg now outcome (removeItem ''awsCredentials'' (clearTimeout i s))))) \<and>
       getAwsCredentialsFromStorage P (removeItem ''awsCredentials'' (clearTimeout i s)) = Json JNull \<and>
       \<not> hasValidAwsCredentials P now (removeItem ''awsCredentials'' (clearTimeout i s)) \<and>
       (\<exists>s'. fire P cfg i now outcome now' s = Some s' \<and>
             network_calls s' = (if configured cfg then Suc (network_calls s) else network_calls s) \<and>
             (\<forall>e. fst (getValidAwsCredentials P cfg now outcome
                         (removeItem ''awsCredentials'' (clearTimeout i s))) = Inl e \<longrightarrow>
                  localStorage s' ''awsCredentials'' = None))) \<and>
    (callback t = PreFetch \<longrightarrow>
       fire P cfg i now outcome now' s =
         Some (callback_continue P PreFetch now'
           (fst (getValidAwsCredentials P cfg now outcome (clearTimeout i s)))
           (snd (getValidAwsCredentials P cfg now outcome (clearTimeout i s)))) \<and>
       localStorage (clearTimeout i s) = localStorage s \<and>
       (hasValidAwsCredentials P now s \<longrightarrow>
          (\<exists>s'. fire P cfg i now outcome now' s = Some s' \<and>
                network_calls s' = network_calls s \<and> localStorage s' = localStorage s)))"
proof (intro conjI impI)
  show "(callback (the (timers (startCredentialRefreshTimer P now0 s0) (next_timer_id s0))) = Refresh)
           = (\<exists>x. stored_expiration P s0 = Some x \<and> truthy (Json x))"
    by (auto simp: startCredentialRefreshTimer_timers split: option.splits)
next
  assume refresh: "callback t = Refresh"
  let ?s1 = "removeItem ''awsCredentials'' (clearTimeout i s)"
  let ?g = "getValidAwsCredentials P cfg now outcome ?s1"
  from assms refresh
  show fired: "fire P cfg i now outcome now' s =
      Some (callback_continue P Refresh now' (fst ?g) (snd ?g))"
    by (simp add: fire_continue)
  show "getAwsCredentialsFromStorage P ?s1 = Json JNull"
    by (simp add: state_facts getAwsCredentialsFromStorage_def)
  show invalid: "\<not> hasValidAwsCredentials P now ?s1"
    by (rule removed_invalid)
  have calls: "network_calls (snd ?g) =
      (if configured cfg then Suc (network_calls s) else network_calls s)"
    using invalid by (simp add: state_facts getValidAwsCredentials_network_calls)
  have deleted: "localStorage (snd ?g) ''awsCredentials'' = None" if "fst ?g = Inl e" for e
  proof -
    from that have "?g = (Inl e, snd ?g)" by (simp add: prod_eq_iff)
    from getValidAwsCredentials_error_keeps_store [OF this] show ?thesis
      by (simp add: state_facts)
  qed
  from calls deleted
  show "\<exists>s'. fire P cfg i now outcome now' s = Some s' \<and>
             network_calls s' = (if configured cfg then Suc (network_calls s) else network_calls s) \<and>
             (\<forall>e. fst ?g = Inl e \<longrightarrow> localStorage s' ''awsCredentials'' = None)"
    unfolding fired by (auto simp: callback_continue_fields)
next
  assume prefetch: "callback t = PreFetch"
  let ?g = "getValidAwsCredentials P cfg now outcome (clearTimeout i s)"
  from assms prefetch
  show fired: "fire P cfg i now outcome now' s =
      Some (callback_continue P PreFetch now' (fst ?g) (snd ?g))"
    by (simp add: fire_continue)
  show "localStorage (clearTimeout i s) = localStorage s" by (simp add: state_facts)
  {
    assume "hasValidAwsCredentials P now s"
    then have "hasValidAwsCredentials P now (clearTimeout i s)"
      by (simp add: state_facts hasValidAwsCredentials_store [of "clearTimeout i s" s])
    then have "?g = (Inr (getAwsCredentialsFromStorage P (clearTimeout i s)), clearTimeout i s)"
      by (rule getValidAwsCredentials_cached)
    then show "\<exists>s'. fire P cfg i now outcome now' s = Some s' \<and>
                network_calls s' = network_calls s \<and> localStorage s' = localStorage s"
      unfolding fired by (simp add: state_facts callback_continue_fields)
  }
qed

lemma armed_pages:
  "timers refresh_armed_page 1 = Some \<lparr>delay = Some 3300000, callback = Refresh\<rparr>"
  "network_calls refresh_armed_page = 0"
  "hasValidAwsCredentials demo_platform demo_now refresh_armed_page"
  "timers prefetch_armed_page 1 = Some \<lparr>delay = Some 2000, callback = PreFetch\<rparr>"
  "network_calls prefetch_armed_page = 0"
  "localStorage prefetch_armed_page = [''awsCredentials'' \<mapsto> full_text]"
  "hasValidAwsCredentials demo_platform demo_now prefetch_armed_page"
proof -
  have next_id: "next_timer_id cached_page = 1" "next_timer_id fresh_page = 1"
    by (simp_all add: cached_page_def fresh_page_def)
  have stored: "stored_expiration demo_platform cached_page = Some (JStr ''2026-02-02T03:40:00.000Z'')"
    "stored_expiration demo_platform fresh_page = None"
    by (simp_all add: demo_facts demo_page_facts stored_expiration_def cached_page_def
        fresh_page_def full_doc_def field_def)
  show "timers refresh_armed_page 1 = Some \<lparr>delay = Some 3300000, callback = Refresh\<rparr>"
    unfolding refresh_armed_page_def startCredentialRefreshTimer_timers next_id stored
    by (simp add: demo_facts demo_page_facts demo_now_def)
  show "network_calls refresh_armed_page = 0"
    by (simp add: refresh_armed_page_def startCredentialRefreshTimer_fields cached_page_def
        fresh_page_def)
  show "hasValidAwsCredentials demo_platform demo_now refresh_armed_page"
    using hasValidAwsCredentials_store [of refresh_armed_page cached_page demo_platform demo_now]
    by (simp add: demo_facts demo_page_facts refresh_armed_page_def
        startCredentialRefreshTimer_fields)
  show "timers prefetch_armed_page 1 = Some \<lparr>delay = Some 2000, callback = PreFetch\<rparr>"
    unfolding prefetch_armed_page_def
    by (simp add: startCredentialRefreshTimer_timers next_id stored)
  show "network_calls prefetch_armed_page = 0"
    by (simp add: prefetch_armed_page_def startCredentialRefreshTimer_fields fresh_page_def)
  show store: "localStorage prefetch_armed_page = [''awsCredentials'' \<mapsto> full_text]"
    by (simp add: prefetch_armed_page_def)
  have "localStorage prefetch_armed_page = localStorage cached_page"
    by (simp add: store cached_page_def)
  from hasValidAwsCredentials_store [OF this, of demo_platform demo_now]
  show "hasValidAwsCredentials demo_platform demo_now prefetch_armed_page"
    by (simp add: demo_facts demo_page_facts)
qed

theorem refresh_fire_deletes_record_witness:
  "timers refresh_armed_page 1 = Some \<lparr>delay = Some 3300000, callback = Refresh\<rparr> \<and>
   hasValidAwsCredentials demo_platform demo_now refresh_armed_page \<and>
   map_option network_calls
     (fire demo_platform with_url 1 demo_now Rejected demo_now refresh_armed_page) = Some 1 \<and>
   map_option (\<lambda>s. localStorage s ''awsCredentials'')
     (fire demo_platform with_url 1 demo_now Rejected demo_now refresh_armed_page) = Some None \<and>
   timers prefetch_armed_page 1 = Some \<lparr>delay = Some 2000, callback = PreFetch\<rparr> \<and>
   hasValidAwsCredentials demo_platform demo_now prefetch_armed_page \<and>
   map_option network_calls
     (fire demo_platform with_url 1 demo_now Rejected demo_now prefetch_armed_page) = Some 0 \<and>
   map_option (\<lambda>s. localStorage s ''awsCredentials'')
     (fire demo_platform with_url 1 demo_now Rejected demo_now prefetch_armed_page) = Some (Some full_text)"
proof -
  let ?s1 = "removeItem ''awsCredentials'' (clearTimeout 1 refresh_armed_page)"
  have failed: "fst (getValidAwsCredentials demo_platform with_url demo_now Rejected ?s1) = Inl TypeError"
    using removed_invalid [of demo_platform demo_now "clearTimeout 1 refresh_armed_page"]
    by (simp add: state_facts demo_facts getValidAwsCredentials_fetched
        getValidAwsCredentials_resume_def)
  from refresh_fire_deletes_record [OF armed_pages(1), of demo_platform demo_now fresh_page
      with_url demo_now Rejected demo_now] failed
  have refresh: "\<exists>s'. fire demo_platform with_url 1 demo_now Rejected demo_now refresh_armed_page = Some s' \<and>
      network_calls s' = 1 \<and> localStorage s' ''awsCredentials'' = None"
    by (auto simp: state_facts demo_facts armed_pages)
  from refresh_fire_deletes_record [OF armed_pages(4), of demo_platform demo_now fresh_page
      with_url demo_now Rejected demo_now] armed_pages(7)
  have prefetch: "\<exists>s'. fire demo_platform with_url 1 demo_now Rejected demo_now prefetch_armed_page = Some s' \<and>
      network_calls s' = 0 \<and> localStorage s' ''awsCredentials'' = Some full_text"
    by (auto simp: armed_pages)
  from refresh prefetch armed_pages show ?thesis
    by auto
qed

section \<open>One pending timer\<close>

lemma pending_startCredentialRefreshTimer:
  "pending (startCredentialRefreshTimer P now s) =
     insert (next_timer_id s)
       (pending s - (case credentialRefreshTimerId s of
                       None \<Rightarrow> {}
                     | Some i \<Rightarrow> if i \<noteq> 0 then {i} else {}))"
  by (auto simp: pending_def startCredentialRefreshTimer_timers split: option.splits if_splits)

lemma timer_inv_start:
  assumes "timer_inv s"
  shows "timer_inv (startCredentialRefreshTimer P now s)"
    and "pending (startCredentialRefreshTimer P now s) = {next_timer_id s}"
  using assms
  by (auto simp: timer_inv_def pending_startCredentialRefreshTimer
      startCredentialRefreshTimer_fields split: option.splits)

lemma timer_inv_frame:
  assumes "timer_inv s" and "timers s' = timers s"
    and "credentialRefreshTimerId s' = credentialRefreshTimerId s"
    and "next_timer_id s' = next_timer_id s"
  shows "timer_inv s'"
  using assms by (auto simp: timer_inv_def pending_def split: option.splits)

lemma timer_inv_fired:
  assumes "timer_inv s" and "timers s i = Some t"
  shows "credentialRefreshTimerId s = Some i" and "pending (clearTimeout i s) = {}"
    and "timer_inv (clearTimeout i s)" and "next_timer_id s \<notin> pending s"
  using assms
  by (auto simp: state_facts timer_inv_def pending_def split: option.splits)

lemma loaded_timer_inv:
  assumes "loaded s"
  shows "timer_inv s"
  using assms by (simp add: loaded_def timer_inv_def pending_def)

lemma demo_pages_inv:
  "timer_inv fresh_page" "timer_inv cached_page"
  "timer_inv refresh_armed_page" "timer_inv prefetch_armed_page"
proof -
  show fresh: "timer_inv fresh_page"
    by (simp add: timer_inv_def pending_def fresh_page_def)
  show cached: "timer_inv cached_page"
    by (simp add: timer_inv_def pending_def cached_page_def fresh_page_def)
  show "timer_inv refresh_armed_page"
    unfolding refresh_armed_page_def by (rule timer_inv_start(1) [OF cached])
  show "timer_inv prefetch_armed_page"
    unfolding prefetch_armed_page_def
    by (rule timer_inv_frame [OF timer_inv_start(1) [OF fresh]]) simp_all
qed

text \<open>
  C1, as amended.  When a pending timer fires (in a state with the single-timer
  invariant, as every reachable state has), its callback runs to completion, and what it
  leaves depends on how \<open>getValidAwsCredentials\<close> settled.  After a success the
  scheduler has armed a new timer: exactly one timer is pending, the fresh one, and
  \<open>credentialRefreshTimerId\<close> names it.  After a failure the error is logged by the
  callback and goes no further, and no timer is armed: none is pending.
\<close>

theorem timer_fire_rearms_after_success:
  assumes "timer_inv s" and "timers s i = Some t"
  shows "\<exists>s'. fire P cfg i now outcome now' s = Some s' \<and>
     (case fst (getValidAwsCredentials P cfg now outcome
                  (case callback t of
                     PreFetch \<Rightarrow> clearTimeout i s
                   | Refresh \<Rightarrow> removeItem ''awsCredentials'' (clearTimeout i s))) of
        Inr credentials \<Rightarrow>
          pending s' = {next_timer_id s} \<and> next_timer_id s \<notin> pending s \<and>
          credentialRefreshTimerId s' = Some (next_timer_id s)
      | Inl error \<Rightarrow>
          pending s' = {} \<and>
          console s' \<noteq> [] \<and>
          last (console s') = (case callback t of
                                 PreFetch \<Rightarrow> Error_prefetching error
                               | Refresh \<Rightarrow> Error_refreshing error))"
proof -
  let ?s1 = "case callback t of
               PreFetch \<Rightarrow> clearTimeout i s
             | Refresh \<Rightarrow> removeItem ''awsCredentials'' (clearTimeout i s)"
  obtain r s2 where g: "getValidAwsCredentials P cfg now outcome ?s1 = (r, s2)"
    by (cases "getValidAwsCredentials P cfg now outcome ?s1")
  note fired = timer_inv_fired [OF assms]
  have same: "timers ?s1 = timers (clearTimeout i s)"
    "credentialRefreshTimerId ?s1 = credentialRefreshTimerId (clearTimeout i s)"
    "next_timer_id ?s1 = next_timer_id (clearTimeout i s)"
    by (simp_all add: state_facts split: callback.splits)
  from timer_inv_frame [OF fired(3) same] have inv1: "timer_inv ?s1" .
  from fired(2) same(1) have pending1: "pending ?s1 = {}" by (simp add: pending_def)
  from same(3) have next1: "next_timer_id ?s1 = next_timer_id s" by (simp add: state_facts)
  from getValidAwsCredentials_frame [OF g]
  have frame: "timers s2 = timers ?s1" "credentialRefreshTimerId s2 = credentialRefreshTimerId ?s1"
    "next_timer_id s2 = next_timer_id ?s1"
    by simp_all
  from timer_inv_frame [OF inv1 frame] have inv2: "timer_inv s2" .
  from frame(1) pending1 have pending2: "pending s2 = {}" by (simp add: pending_def)
  have result: "fire P cfg i now outcome now' s = Some (callback_continue P (callback t) now' r s2)"
    using g by (simp add: fire_continue [OF assms(2)])
  show ?thesis
  proof (cases r)
    case (Inr credentials)
    with timer_inv_start [OF inv2, of P now'] fired(4) frame(3) next1 g show ?thesis
      unfolding result
      by (simp add: callback_continue_def startCredentialRefreshTimer_fields)
  next
    case (Inl error)
    with pending2 g show ?thesis
      unfolding result
      by (simp add: callback_continue_def log_def pending_def split: callback.splits)
  qed
qed

theorem timer_fire_rearms_after_success_witness:
  "timer_inv prefetch_armed_page \<and>
   timers prefetch_armed_page 1 = Some \<lparr>delay = Some 2000, callback = PreFetch\<rparr> \<and>
   map_option pending
     (fire demo_platform with_url 1 demo_now Rejected demo_now prefetch_armed_page) = Some {2} \<and>
   timer_inv refresh_armed_page \<and>
   timers refresh_armed_page 1 = Some \<lparr>delay = Some 3300000, callback = Refresh\<rparr> \<and>
   map_option pending
     (fire demo_platform with_url 1 demo_now Rejected demo_now refresh_armed_page) = Some {} \<and>
   map_option (\<lambda>s. last (console s))
     (fire demo_platform with_url 1 demo_now Rejected demo_now refresh_armed_page) =
       Some (Error_refreshing TypeError)"
proof -
  have hit: "fst (getValidAwsCredentials demo_platform with_url demo_now Rejected
      (clearTimeout 1 prefetch_armed_page)) = Inr (Json full_doc)"
  proof -
    have store: "localStorage (clearTimeout 1 prefetch_armed_page) = localStorage cached_page"
      by (simp add: state_facts demo_facts demo_page_facts armed_pages cached_page_def)
    from hasValidAwsCredentials_store [OF store, of demo_platform demo_now]
    have valid: "hasValidAwsCredentials demo_platform demo_now (clearTimeout 1 prefetch_armed_page)"
      by (simp add: state_facts demo_facts demo_page_facts)
    have "getAwsCredentialsFromStorage demo_platform (clearTimeout 1 prefetch_armed_page) =
        getAwsCredentialsFromStorage demo_platform cached_page"
      unfolding getAwsCredentialsFromStorage_def store ..
    with valid show ?thesis
      by (simp add: state_facts demo_facts demo_page_facts getValidAwsCredentials_cached)
  qed
  have next_id: "next_timer_id prefetch_armed_page = 2"
    by (simp add: prefetch_armed_page_def startCredentialRefreshTimer_fields fresh_page_def)
  have failed: "fst (getValidAwsCredentials demo_platform with_url demo_now Rejected
      (removeItem ''awsCredentials'' (clearTimeout 1 refresh_armed_page))) = Inl TypeError"
    using removed_invalid [of demo_platform demo_now "clearTimeout 1 refresh_armed_page"]
    by (simp add: state_facts demo_facts demo_page_facts getValidAwsCredentials_fetched
        getValidAwsCredentials_resume_def)
  from timer_fire_rearms_after_success [OF demo_pages_inv(4) armed_pages(4),
      of demo_platform with_url demo_now Rejected demo_now] hit next_id
  have rearmed: "map_option pending
     (fire demo_platform with_url 1 demo_now Rejected demo_now prefetch_armed_page) = Some {2}"
    by auto
  from timer_fire_rearms_after_success [OF demo_pages_inv(3) armed_pages(1),
      of demo_platform with_url demo_now Rejected demo_now] failed
  have stopped: "map_option pending
     (fire demo_platform with_url 1 demo_now Rejected demo_now refresh_armed_page) = Some {} \<and>
   map_option (\<lambda>s. last (console s))
     (fire demo_platform with_url 1 demo_now Rejected demo_now refresh_armed_page) =
       Some (Error_refreshing TypeError)"
    by auto
  from rearmed stopped demo_pages_inv armed_pages show ?thesis by simp
qed

text \<open>
  The claim as stated fails.  The pre-fetch timer armed on a fresh page fires with no URL
  configured, or with the URL configured and the request failing: the error is logged and
  no timer is pending afterwards.  The same holds of the refresh timer when its request
  fails.
\<close>

theorem timer_fire_stops_counterexample:
  "timers (startCredentialRefreshTimer demo_platform demo_now fresh_page) 1 =
     Some \<lparr>delay = Some 2000, callback = PreFetch\<rparr> \<and>
   map_option pending
     (fire demo_platform without_url 1 demo_now Rejected demo_now
        (startCredentialRefreshTimer demo_platform demo_now fresh_page)) = Some {} \<and>
   map_option pending
     (fire demo_platform with_url 1 demo_now Rejected demo_now
        (startCredentialRefreshTimer demo_platform demo_now fresh_page)) = Some {} \<and>
   map_option pending
     (fire demo_platform with_url 1 demo_now Rejected demo_now refresh_armed_page) = Some {}"
proof -
  let ?s = "startCredentialRefreshTimer demo_platform demo_now fresh_page"
  have armed: "timers ?s = [1 \<mapsto> \<lparr>delay = Some 2000, callback = PreFetch\<rparr>]"
    by (simp add: startCredentialRefreshTimer_timers stored_expiration_def fresh_page_def)
  have invalid: "\<not> hasValidAwsCredentials demo_platform demo_now (clearTimeout 1 ?s)"
    using hasValidAwsCredentials_store [of "clearTimeout 1 ?s" fresh_page demo_platform demo_now]
    by (simp add: state_facts demo_facts demo_page_facts startCredentialRefreshTimer_fields)
  have no_url: "pending (callback_continue demo_platform PreFetch demo_now
      (fst (getValidAwsCredentials demo_platform without_url demo_now Rejected (clearTimeout 1 ?s)))
      (snd (getValidAwsCredentials demo_platform without_url demo_now Rejected (clearTimeout 1 ?s)))) = {}"
    using invalid
    by (simp add: state_facts demo_facts demo_page_facts getValidAwsCredentials_unconfigured
        callback_continue_def log_def pending_def armed)
  have no_net: "pending (callback_continue demo_platform PreFetch demo_now
      (fst (getValidAwsCredentials demo_platform with_url demo_now Rejected (clearTimeout 1 ?s)))
      (snd (getValidAwsCredentials demo_platform with_url demo_now Rejected (clearTimeout 1 ?s)))) = {}"
    using invalid
    by (simp add: state_facts demo_facts demo_page_facts getValidAwsCredentials_fetched
        getValidAwsCredentials_resume_def
        callback_continue_def log_def pending_def armed)
  let ?r = "removeItem ''awsCredentials'' (clearTimeout 1 refresh_armed_page)"
  have refresh_timers: "timers refresh_armed_page = [1 \<mapsto> \<lparr>delay = Some 3300000, callback = Refresh\<rparr>]"
    unfolding refresh_armed_page_def startCredentialRefreshTimer_timers
    by (simp add: state_facts demo_facts demo_page_facts stored_expiration_def cached_page_def
        fresh_page_def full_doc_def field_def
        demo_now_def)
  have refresh: "pending (callback_continue demo_platform Refresh demo_now
      (fst (getValidAwsCredentials demo_platform with_url demo_now Rejected ?r))
      (snd (getValidAwsCredentials demo_platform with_url demo_now Rejected ?r))) = {}"
    using removed_invalid [of demo_platform demo_now "clearTimeout 1 refresh_armed_page"]
    by (simp add: state_facts demo_facts demo_page_facts getValidAwsCredentials_fetched
        getValidAwsCredentials_resume_def
        callback_continue_def log_def pending_def refresh_timers)
  have f1: "timers ?s 1 = Some \<lparr>delay = Some 2000, callback = PreFetch\<rparr>"
    by (simp add: armed)
  from no_url have c2: "map_option pending
      (fire demo_platform without_url 1 demo_now Rejected demo_now ?s) = Some {}"
    unfolding fire_continue [OF f1] by simp
  from no_net have c3: "map_option pending
      (fire demo_platform with_url 1 demo_now Rejected demo_now ?s) = Some {}"
    unfolding fire_continue [OF f1] by simp
  from refresh have c4: "map_option pending
      (fire demo_platform with_url 1 demo_now Rejected demo_now refresh_armed_page) = Some {}"
    unfolding fire_continue [OF armed_pages(1)] by simp
  from f1 c2 c3 c4 show ?thesis by blast
qed

section \<open>The event loop\<close>

text \<open>A call of \<open>getValidAwsCredentials\<close> is its beginning, then its resumption if it was suspended.\<close>

lemma getValidAwsCredentials_split:
  "getValidAwsCredentials P cfg now outcome s =
     (case getValidAwsCredentials_begin P cfg now s of
        Settled r s' \<Rightarrow> (r, s')
      | Suspended s' \<Rightarrow> getValidAwsCredentials_resume P outcome s')"
  by (simp add: getValidAwsCredentials_def getValidAwsCredentials_begin_def
      getValidAwsCredentials_resume_def fetchCredentialsFromApi_def split: sum.splits)

lemma getValidAwsCredentials_begin_frame:
  assumes "getValidAwsCredentials_begin P cfg now s = Settled r s' \<or>
           getValidAwsCredentials_begin P cfg now s = Suspended s'"
  shows "timers s' = timers s \<and> credentialRefreshTimerId s' = credentialRefreshTimerId s \<and>
         next_timer_id s' = next_timer_id s \<and> reloads s' = reloads s"
  using assms
  by (auto simp: getValidAwsCredentials_begin_def fetch_request_configured log_def
      split: if_splits)

text \<open>
  A timer firing and its callback running to completion is the \<open>Fire\<close> event, followed,
  when the callback was suspended on its request, by the \<open>Settle\<close> event of that request.
\<close>

lemma fire_as_events:
  assumes "timers s i = Some t"
  shows "(case step P cfg (Fire i now now') (s, waiting) of
            None \<Rightarrow> False
          | Some (s1, waiting1) \<Rightarrow>
              if waiting1 = waiting then fire P cfg i now outcome now' s = Some s1
              else waiting1 = waiting @ [TimerCallback (callback t)] \<and>
                   map_option fst (step P cfg (Settle (TimerCallback (callback t)) outcome now')
                                     (s1, waiting1)) =
                     fire P cfg i now outcome now' s)"
  using assms
  by (auto simp: step_def Let_def fire_continue getValidAwsCredentials_split
      split: progress.splits callback.splits prod.splits)

lemma only_timer_cleared:
  assumes "dom m \<subseteq> {i}"
  shows "dom (m(i := None)) = {}"
  using assms by auto

lemma timer_inv_logout:
  assumes "timer_inv s"
  shows "timer_inv (logout s)" and "pending (logout s) = {}"
proof -
  have fields: "credentialRefreshTimerId (logout s) = credentialRefreshTimerId s"
    "next_timer_id (logout s) = next_timer_id s"
    "pending (logout s) =
       (case credentialRefreshTimerId s of
          None \<Rightarrow> pending s
        | Some i \<Rightarrow> if i \<noteq> 0 then dom ((timers s)(i := None)) else pending s)"
    by (simp_all add: state_facts logout_def Let_def pending_def split: option.splits)
  from assms show none: "pending (logout s) = {}"
    unfolding fields timer_inv_def
    by (cases "credentialRefreshTimerId s") (simp_all add: pending_def only_timer_cleared)
  from assms show "timer_inv (logout s)"
    by (simp add: timer_inv_def fields(1,2) none split: option.splits)
qed

lemma timer_inv_callback_continue:
  assumes "timer_inv s"
  shows "timer_inv (callback_continue P cb now' r s)"
proof (cases r)
  case (Inl error)
  then show ?thesis
    using timer_inv_frame [OF assms, of "callback_continue P cb now' r s"]
    by (simp add: callback_continue_def log_def)
next
  case (Inr credentials)
  then show ?thesis
    using timer_inv_start(1) [OF assms] by (simp add: callback_continue_def)
qed

lemma timer_inv_step:
  assumes "timer_inv s" and "step P cfg ev (s, waiting) = Some (s', waiting')"
  shows "timer_inv s'"
proof (cases ev)
  case (Start now)
  with assms timer_inv_start(1) [OF assms(1)] show ?thesis by (auto simp: step_def)
next
  case (Fire i now now')
  with assms(2) obtain t where t: "timers s i = Some t"
    by (auto simp: step_def split: option.splits)
  let ?s1 = "case callback t of
               PreFetch \<Rightarrow> clearTimeout i s
             | Refresh \<Rightarrow> removeItem ''awsCredentials'' (clearTimeout i s)"
  have same: "timers ?s1 = timers (clearTimeout i s)"
    "credentialRefreshTimerId ?s1 = credentialRefreshTimerId (clearTimeout i s)"
    "next_timer_id ?s1 = next_timer_id (clearTimeout i s)"
    by (simp_all add: state_facts split: callback.splits)
  from timer_inv_frame [OF timer_inv_fired(3) [OF assms(1) t] same] have inv1: "timer_inv ?s1" .
  show ?thesis
  proof (cases "getValidAwsCredentials_begin P cfg now ?s1")
    case (Settled r s2)
    from getValidAwsCredentials_begin_frame [of P cfg now ?s1 r s2] Settled
    have "timer_inv s2" using timer_inv_frame [OF inv1, of s2] by simp
    from timer_inv_callback_continue [OF this] assms(2) Fire t Settled show ?thesis
      by (auto simp: step_def Let_def)
  next
    case (Suspended s2)
    from getValidAwsCredentials_begin_frame [of P cfg now ?s1 _ s2] Suspended
    have "timer_inv s2" using timer_inv_frame [OF inv1, of s2] by simp
    with assms(2) Fire t Suspended show ?thesis
      by (auto simp: step_def Let_def)
  qed
next
  case (Call now)
  show ?thesis
  proof (cases "getValidAwsCredentials_begin P cfg now s")
    case (Settled r s2)
    from getValidAwsCredentials_begin_frame [of P cfg now s r s2] Settled
    have "timer_inv s2" using timer_inv_frame [OF assms(1), of s2] by simp
    with assms(2) Call Settled show ?thesis by (auto simp: step_def)
  next
    case (Suspended s2)
    from getValidAwsCredentials_begin_frame [of P cfg now s _ s2] Suspended
    have "timer_inv s2" using timer_inv_frame [OF assms(1), of s2] by simp
    with assms(2) Call Suspended show ?thesis by (auto simp: step_def)
  qed
next
  case (Settle c outcome now')
  obtain r s1 where res: "getValidAwsCredentials_resume P outcome s = (r, s1)"
    by (cases "getValidAwsCredentials_resume P outcome s")
  from getValidAwsCredentials_resume_frame [OF res]
  have inv1: "timer_inv s1" using timer_inv_frame [OF assms(1), of s1] by simp
  from assms(2) Settle res inv1 timer_inv_callback_continue [OF inv1] show ?thesis
    by (auto simp: step_def split: if_splits caller.splits)
next
  case Logout
  with assms timer_inv_logout(1) [OF assms(1)] show ?thesis by (auto simp: step_def)
qed

lemma timer_inv_run:
  assumes "timer_inv (fst w)" and "run P cfg evs w = Some w'"
  shows "timer_inv (fst w')"
  using assms
proof (induction evs arbitrary: w)
  case Nil
  then show ?case by simp
next
  case (Cons ev evs)
  from Cons.prems(2) obtain w1 where w1: "step P cfg ev w = Some w1" "run P cfg evs w1 = Some w'"
    by (auto split: option.splits)
  from timer_inv_step [of "fst w" P cfg ev "snd w" "fst w1" "snd w1"] Cons.prems(1) w1(1)
  have "timer_inv (fst w1)" by simp
  from Cons.IH [OF this w1(2)] show ?case .
qed

lemma timer_inv_pending:
  assumes "timer_inv s"
  shows "finite (pending s)" and "card (pending s) \<le> 1" and "next_timer_id s \<notin> pending s"
proof -
  from assms obtain i where sub: "pending s \<subseteq> {i}" and fresh: "next_timer_id s \<notin> pending s"
    by (auto simp: timer_inv_def split: option.splits)
  from sub show "finite (pending s)" by (rule finite_subset) simp
  from sub have "card (pending s) \<le> card {i}" by (intro card_mono) simp_all
  then show "card (pending s) \<le> 1" by simp
  from fresh show "next_timer_id s \<notin> pending s" .
qed

lemma reachable_timer_inv:
  assumes "loaded s0" and "run P cfg evs (s0, []) = Some (s, waiting)"
  shows "timer_inv s"
  using timer_inv_run [of "(s0, [])" P cfg evs "(s, waiting)"] loaded_timer_inv [OF assms(1)] assms(2)
  by simp

text \<open>
  C6.  In every state the module reaches from a freshly loaded page, through any
  sequence of events (starting the timer, timers firing, adapters asking for credentials,
  requests settling while others are in flight, logging out), at most one timer is
  pending.  A call of \<open>startCredentialRefreshTimer\<close> there cancels the pending timer
  and arms a fresh one, so that exactly the new timer is pending; calling it twice in a
  row leaves exactly one pending timer, the second one.
\<close>

theorem single_pending_timer:
  assumes "loaded s0" and "run P cfg evs (s0, []) = Some (s, waiting)"
  shows "finite (pending s) \<and> card (pending s) \<le> 1 \<and>
         next_timer_id s \<notin> pending s \<and>
         pending (startCredentialRefreshTimer P now s) = {next_timer_id s} \<and>
         pending (startCredentialRefreshTimer P now' (startCredentialRefreshTimer P now s)) =
           {Suc (next_timer_id s)} \<and>
         card (pending (startCredentialRefreshTimer P now' (startCredentialRefreshTimer P now s))) = 1"
proof -
  from assms have inv: "timer_inv s" by (rule reachable_timer_inv)
  note once = timer_inv_start [OF inv, of P now]
  note twice = timer_inv_start(2) [OF once(1), of P now']
  from timer_inv_pending [OF inv] once(2) twice show ?thesis
    by (simp add: startCredentialRefreshTimer_fields)
qed

lemma demo_events_run:
  "\<exists>s. run demo_platform with_url demo_events (fresh_page, []) = Some (s, [])"
proof -
  let ?s1 = "startCredentialRefreshTimer demo_platform demo_now fresh_page"
  have s1: "step demo_platform with_url (Start demo_now) (fresh_page, []) = Some (?s1, [])"
    by (simp add: step_def)
  have armed: "timers ?s1 1 = Some \<lparr>delay = Some 2000, callback = PreFetch\<rparr>"
    by (simp add: startCredentialRefreshTimer_timers stored_expiration_def fresh_page_def)
  have invalid: "\<not> hasValidAwsCredentials demo_platform (demo_now + 2000) (clearTimeout 1 ?s1)"
    using hasValidAwsCredentials_store [of "clearTimeout 1 ?s1" fresh_page demo_platform "demo_now + 2000"]
    by (simp add: state_facts demo_facts demo_page_facts startCredentialRefreshTimer_fields)
  let ?s2 = "(clearTimeout 1 ?s1)\<lparr>network_calls := Suc (network_calls (clearTimeout 1 ?s1))\<rparr>"
  have s2: "step demo_platform with_url (Fire 1 (demo_now + 2000) (demo_now + 2000)) (?s1, []) =
      Some (?s2, [TimerCallback PreFetch])"
    using invalid
    by (simp add: state_facts demo_facts demo_page_facts step_def armed
        getValidAwsCredentials_begin_def fetch_request_configured
        del: One_nat_def)
  have "\<exists>w3. step demo_platform with_url
      (Settle (TimerCallback PreFetch) (respond full_text) (demo_now + 2100))
      (?s2, [TimerCallback PreFetch]) = Some (w3, [])"
    by (cases "getValidAwsCredentials_resume demo_platform (respond full_text) ?s2")
      (simp add: step_def)
  then obtain w3 where s3: "step demo_platform with_url
      (Settle (TimerCallback PreFetch) (respond full_text) (demo_now + 2100))
      (?s2, [TimerCallback PreFetch]) = Some (w3, [])" ..
  have s4: "step demo_platform with_url (Start (demo_now + 3000)) (w3, []) =
      Some (startCredentialRefreshTimer demo_platform (demo_now + 3000) w3, [])"
    by (simp add: step_def)
  from s1 s2 s3 s4 show ?thesis
    by (simp add: demo_events_def)
qed

theorem single_pending_timer_witness:
  "loaded fresh_page \<and>
   run demo_platform with_url demo_events (fresh_page, []) \<noteq> None \<and>
   card (pending (fst (the (run demo_platform with_url demo_events (fresh_page, []))))) \<le> 1 \<and>
   card (pending (startCredentialRefreshTimer demo_platform demo_now
           (startCredentialRefreshTimer demo_platform demo_now
              (fst (the (run demo_platform with_url demo_events (fresh_page, []))))))) = 1"
proof -
  have l: "loaded fresh_page" by (simp add: loaded_def fresh_page_def)
  from demo_events_run obtain s where
    r: "run demo_platform with_url demo_events (fresh_page, []) = Some (s, [])" ..
  from single_pending_timer [OF l r, of demo_now demo_now] l r show ?thesis
    by simp
qed

section \<open>Logging out\<close>

lemma fetch_response_fails:
  assumes "\<not> fetch_succeeds P outcome"
  shows "\<exists>e. fetch_response P outcome s = (Inl e, s)"
  using assms
  by (auto simp: fetch_succeeds_def fetch_response_def member_def is_nullish_def Let_def
      split: fetch_outcome.splits option.splits)

lemma fetch_response_succeeds:
  assumes "fetch_succeeds P outcome"
  shows "\<exists>r ms. fetch_response P outcome s =
           (Inr r, setAwsCredentials P r (log (Credentials_obtained (toISOString P ms)) s)) \<and>
         SerializeJSONProperty P r \<noteq> None"
  using assms
  by (auto simp: fetch_succeeds_def fetch_response_def member_def is_nullish_def Let_def
      split: fetch_outcome.splits option.splits)

lemma getValidAwsCredentials_begin_store:
  assumes "getValidAwsCredentials_begin P cfg now s = Settled r s' \<or>
           getValidAwsCredentials_begin P cfg now s = Suspended s'"
  shows "localStorage s' = localStorage s"
  using assms
  by (auto simp: getValidAwsCredentials_begin_def fetch_request_configured log_def
      split: if_splits)

lemma getValidAwsCredentials_resume_fails:
  assumes "\<not> fetch_succeeds P outcome"
  shows "\<exists>e. getValidAwsCredentials_resume P outcome s = (Inl e, log (Error_getting e) s)"
  using fetch_response_fails [OF assms, of s]
  by (auto simp: getValidAwsCredentials_resume_def)

lemma getValidAwsCredentials_resume_succeeds:
  assumes "fetch_succeeds P outcome"
  shows "\<exists>r s'. getValidAwsCredentials_resume P outcome s = (Inr r, s') \<and>
           localStorage s' ''awsCredentials'' \<noteq> None \<and> timers s' = timers s \<and>
           credentialRefreshTimerId s' = credentialRefreshTimerId s \<and>
           next_timer_id s' = next_timer_id s"
  using fetch_response_succeeds [OF assms, of s]
  by (auto simp: getValidAwsCredentials_resume_def setAwsCredentials_def setItem_def log_def)

text \<open>
  An event that does not call \<open>startCredentialRefreshTimer\<close> keeps the timers empty,
  and is no timer firing; if it stores no record either, the key stays absent.
\<close>

lemma quiet_step:
  assumes "pending s = {}" and "step P cfg ev (s, waiting) = Some (s', waiting')"
    and "\<not> calls_start P ev"
  shows "pending s' = {}" and "\<not> is_Fire ev"
    and "localStorage s ''awsCredentials'' = None \<and> \<not> stores_record P ev \<longrightarrow>
         localStorage s' ''awsCredentials'' = None"
proof -
  have "pending s' = {} \<and> \<not> is_Fire ev \<and>
      (localStorage s ''awsCredentials'' = None \<and> \<not> stores_record P ev \<longrightarrow>
         localStorage s' ''awsCredentials'' = None)"
  proof (cases ev)
    case (Start now)
    with assms(3) show ?thesis by simp
  next
    case (Fire i now now')
    from assms(1) have "timers s i = None" by (auto simp: pending_def)
    with assms(2) Fire show ?thesis by (simp add: step_def)
  next
    case (Call now)
    show ?thesis
    proof (cases "getValidAwsCredentials_begin P cfg now s")
      case (Settled r s2)
      from getValidAwsCredentials_begin_frame [of P cfg now s r s2]
        getValidAwsCredentials_begin_store [of P cfg now s r s2] Settled assms(1,2) Call
      show ?thesis by (auto simp: step_def pending_def)
    next
      case (Suspended s2)
      from getValidAwsCredentials_begin_frame [of P cfg now s _ s2]
        getValidAwsCredentials_begin_store [of P cfg now s _ s2] Suspended assms(1,2) Call
      show ?thesis by (auto simp: step_def pending_def)
    qed
  next
    case (Settle c outcome now')
    obtain r s1 where res: "getValidAwsCredentials_resume P outcome s = (r, s1)"
      by (cases "getValidAwsCredentials_resume P outcome s")
    note frame = getValidAwsCredentials_resume_frame [OF res]
    show ?thesis
    proof (cases "fetch_succeeds P outcome")
      case True
      with assms(3) Settle have c: "c = Adapter" by (cases c) simp_all
      from frame assms(1,2) Settle c res True show ?thesis
        by (auto simp: step_def pending_def split: if_splits)
    next
      case False
      from getValidAwsCredentials_resume_fails [OF False, of s] res
      obtain e where failed: "r = Inl e" "s1 = log (Error_getting e) s" by auto
      from assms(1,2) Settle res failed show ?thesis
        by (cases c)
          (auto simp: step_def pending_def callback_continue_def log_def split: if_splits)
    qed
  next
    case Logout
    with assms(1,2) show ?thesis
      by (auto simp: step_def logout_def Let_def pending_def removeItem_def clearTimeout_def
          split: option.splits)
  qed
  then show "pending s' = {}" and "\<not> is_Fire ev"
    and "localStorage s ''awsCredentials'' = None \<and> \<not> stores_record P ev \<longrightarrow>
         localStorage s' ''awsCredentials'' = None"
    by simp_all
qed

lemma quiet_run:
  assumes "pending (fst w) = {}" and "run P cfg evs w = Some w'"
    and "\<not> list_ex (calls_start P) evs"
  shows "pending (fst w') = {} \<and> \<not> list_ex is_Fire evs \<and>
         (localStorage (fst w) ''awsCredentials'' = None \<and> \<not> list_ex (stores_record P) evs \<longrightarrow>
            localStorage (fst w') ''awsCredentials'' = None)"
  using assms
proof (induction evs arbitrary: w)
  case Nil
  then show ?case by simp
next
  case (Cons ev evs)
  from Cons.prems(2) obtain w1 where w1: "step P cfg ev w = Some w1" "run P cfg evs w1 = Some w'"
    by (auto split: option.splits)
  from Cons.prems(3) have quiet: "\<not> calls_start P ev" "\<not> list_ex (calls_start P) evs"
    by simp_all
  from quiet_step [of "fst w" P cfg ev "snd w" "fst w1" "snd w1"] Cons.prems(1) w1(1) quiet(1)
  have here: "pending (fst w1) = {}" "\<not> is_Fire ev"
    "localStorage (fst w) ''awsCredentials'' = None \<and> \<not> stores_record P ev \<longrightarrow>
       localStorage (fst w1) ''awsCredentials'' = None"
    by simp_all
  from Cons.IH [OF here(1) w1(2) quiet(2)] here(2,3) show ?case by simp
qed

text \<open>
  A timer callback resumed by a request that succeeded stores the record and arms a
  timer, also when none was pending.
\<close>

lemma settle_rearms:
  assumes "pending s = {}" and "TimerCallback cb \<in> set waiting" and "fetch_succeeds P outcome"
  shows "\<exists>s'. step P cfg (Settle (TimerCallback cb) outcome now') (s, waiting) =
              Some (s', remove1 (TimerCallback cb) waiting) \<and>
            pending s' = {next_timer_id s} \<and> localStorage s' ''awsCredentials'' \<noteq> None"
proof -
  from getValidAwsCredentials_resume_succeeds [OF assms(3), of s] obtain r s1 where
    res: "getValidAwsCredentials_resume P outcome s = (Inr r, s1)"
    and stored: "localStorage s1 ''awsCredentials'' \<noteq> None"
    and same: "timers s1 = timers s" "next_timer_id s1 = next_timer_id s"
    by blast
  from same(1) assms(1) have "pending s1 = {}" by (simp add: pending_def)
  then have "pending (startCredentialRefreshTimer P now' s1) = {next_timer_id s}"
    by (simp add: pending_startCredentialRefreshTimer same(2))
  with assms(2) res stored show ?thesis
    by (simp add: step_def callback_continue_def startCredentialRefreshTimer_fields)
qed

text \<open>
  C9, as amended.  \<open>logout\<close> (in a state with the single-timer invariant, as every
  reachable state has) deletes the stored record and cancels the pending refresh timer,
  and requests the page reload: right afterwards a store read returns \<open>null\<close> and no
  timer is pending.  From there, over any events, as long as
  \<open>startCredentialRefreshTimer\<close> is not called, no timer becomes pending and no timer
  fires, so no autonomous fetch occurs; and as long as no request succeeds either, the
  record stays absent.  A request that fails changes nothing of this, whoever waits for
  it.  But \<open>logout\<close> does not cancel a request in flight: when a timer callback is
  waiting for its request at logout and the request then succeeds, the callback stores
  the record and calls \<open>startCredentialRefreshTimer\<close> itself, so a timer is pending
  again with no call from outside.
\<close>

theorem logout_clears_record_and_timer:
  assumes "timer_inv s"
  shows "localStorage (logout s) ''awsCredentials'' = None \<and>
         getAwsCredentialsFromStorage P (logout s) = Json JNull \<and>
         pending (logout s) = {} \<and>
         reloads (logout s) = Suc (reloads s) \<and>
         (\<forall>evs w'. run P cfg evs (logout s, waiting) = Some w' \<and>
                   \<not> list_ex (calls_start P) evs \<longrightarrow>
            pending (fst w') = {} \<and> \<not> list_ex is_Fire evs \<and>
            (\<not> list_ex (stores_record P) evs \<longrightarrow>
               localStorage (fst w') ''awsCredentials'' = None)) \<and>
         (\<forall>cb outcome now'. TimerCallback cb \<in> set waiting \<and> fetch_succeeds P outcome \<longrightarrow>
            (\<exists>s'. step P cfg (Settle (TimerCallback cb) outcome now') (logout s, waiting) =
                    Some (s', remove1 (TimerCallback cb) waiting) \<and>
                  pending s' = {next_timer_id s} \<and>
                  localStorage s' ''awsCredentials'' \<noteq> None))"
proof -
  have store: "localStorage (logout s) ''awsCredentials'' = None"
    by (simp add: state_facts logout_def Let_def split: option.splits)
  then have read: "getAwsCredentialsFromStorage P (logout s) = Json JNull"
    by (simp add: getAwsCredentialsFromStorage_def)
  have reload: "reloads (logout s) = Suc (reloads s)"
    by (simp add: logout_def Let_def clearTimeout_def removeItem_def split: option.splits)
  have next_id: "next_timer_id (logout s) = next_timer_id s"
    by (simp add: logout_def Let_def clearTimeout_def removeItem_def split: option.splits)
  note none = timer_inv_logout(2) [OF assms]
  have quiet: "pending (fst w') = {} \<and> \<not> list_ex is_Fire evs \<and>
      (\<not> list_ex (stores_record P) evs \<longrightarrow> localStorage (fst w') ''awsCredentials'' = None)"
    if "run P cfg evs (logout s, waiting) = Some w'" and "\<not> list_ex (calls_start P) evs"
    for evs w'
    using quiet_run [of "(logout s, waiting)" P cfg evs w'] none store that by simp
  have rearm: "\<exists>s'. step P cfg (Settle (TimerCallback cb) outcome now') (logout s, waiting) =
                    Some (s', remove1 (TimerCallback cb) waiting) \<and>
                  pending s' = {next_timer_id s} \<and>
                  localStorage s' ''awsCredentials'' \<noteq> None"
    if "TimerCallback cb \<in> set waiting" and "fetch_succeeds P outcome"
    for cb outcome now'
    using settle_rearms [OF none that, of cfg now'] by (simp add: next_id)
  from store read none reload quiet rearm show ?thesis by blast
qed

lemma in_flight_run:
  "run demo_platform with_url [Start demo_now, Fire 1 (demo_now + 2000) (demo_now + 2000)]
     (fresh_page, []) = Some (in_flight_page, [TimerCallback PreFetch])"
proof -
  let ?s1 = "startCredentialRefreshTimer demo_platform demo_now fresh_page"
  have s1: "step demo_platform with_url (Start demo_now) (fresh_page, []) = Some (?s1, [])"
    by (simp add: step_def)
  have armed: "timers ?s1 1 = Some \<lparr>delay = Some 2000, callback = PreFetch\<rparr>"
    by (simp add: startCredentialRefreshTimer_timers stored_expiration_def fresh_page_def)
  have invalid: "\<not> hasValidAwsCredentials demo_platform (demo_now + 2000) (clearTimeout 1 ?s1)"
    using hasValidAwsCredentials_store [of "clearTimeout 1 ?s1" fresh_page demo_platform "demo_now + 2000"]
    by (simp add: state_facts demo_page_facts startCredentialRefreshTimer_fields)
  have calls: "network_calls (clearTimeout 1 ?s1) = 0"
    by (simp add: state_facts startCredentialRefreshTimer_fields fresh_page_def)
  have s2: "step demo_platform with_url (Fire 1 (demo_now + 2000) (demo_now + 2000)) (?s1, []) =
      Some (in_flight_page, [TimerCallback PreFetch])"
    using invalid
    by (simp add: demo_facts step_def armed getValidAwsCredentials_begin_def
        fetch_request_configured in_flight_page_def calls del: One_nat_def)
  from s1 s2 show ?thesis by simp
qed

lemma in_flight_page_fields:
  "timer_inv in_flight_page"
  "localStorage in_flight_page = Map.empty"
  "timers in_flight_page = Map.empty"
  "credentialRefreshTimerId in_flight_page = Some 1"
  "next_timer_id in_flight_page = 2"
  "network_calls in_flight_page = 1"
proof -
  have "loaded fresh_page" by (simp add: loaded_def fresh_page_def)
  from reachable_timer_inv [OF this in_flight_run] show "timer_inv in_flight_page" .
  show "localStorage in_flight_page = Map.empty"
    by (simp add: in_flight_page_def state_facts startCredentialRefreshTimer_fields fresh_page_def)
  show "timers in_flight_page = Map.empty"
    by (simp add: in_flight_page_def state_facts startCredentialRefreshTimer_timers
        fresh_page_def)
  show "credentialRefreshTimerId in_flight_page = Some 1"
    by (simp add: in_flight_page_def state_facts startCredentialRefreshTimer_fields fresh_page_def)
  show "next_timer_id in_flight_page = 2"
    by (simp add: in_flight_page_def state_facts startCredentialRefreshTimer_fields fresh_page_def)
  show "network_calls in_flight_page = 1"
    by (simp add: in_flight_page_def)
qed

lemma logout_in_flight_run:
  "run demo_platform with_url logout_in_flight (fresh_page, []) =
     Some (logout in_flight_page, [TimerCallback PreFetch])"
proof -
  have "run demo_platform with_url logout_in_flight (fresh_page, []) =
      (case run demo_platform with_url [Start demo_now, Fire 1 (demo_now + 2000) (demo_now + 2000)]
              (fresh_page, []) of
         None \<Rightarrow> None
       | Some w \<Rightarrow> run demo_platform with_url [Logout] w)"
    by (simp add: logout_in_flight_def split: option.splits)
  then show ?thesis
    unfolding in_flight_run by (simp add: step_def)
qed

lemma logged_out_fields:
  "localStorage (logout in_flight_page) = Map.empty"
  "timers (logout in_flight_page) = Map.empty"
  "credentialRefreshTimerId (logout in_flight_page) = Some 1"
  "next_timer_id (logout in_flight_page) = 2"
  "network_calls (logout in_flight_page) = 1"
  by (simp_all add: logout_def Let_def state_facts in_flight_page_fields clearTimeout_def
      removeItem_def)

theorem logout_clears_record_and_timer_witness:
  "timer_inv in_flight_page \<and>
   run demo_platform with_url logout_in_flight (fresh_page, []) =
     Some (logout in_flight_page, [TimerCallback PreFetch]) \<and>
   localStorage (logout in_flight_page) ''awsCredentials'' = None \<and>
   pending (logout in_flight_page) = {} \<and>
   map_option (\<lambda>w. pending (fst w))
     (run demo_platform with_url
        [Settle (TimerCallback PreFetch) Rejected (demo_now + 2100), Call (demo_now + 3000)]
        (logout in_flight_page, [TimerCallback PreFetch])) = Some {} \<and>
   map_option (\<lambda>w. localStorage (fst w) ''awsCredentials'')
     (run demo_platform with_url
        [Settle (TimerCallback PreFetch) Rejected (demo_now + 2100), Call (demo_now + 3000)]
        (logout in_flight_page, [TimerCallback PreFetch])) = Some None \<and>
   map_option (\<lambda>w. pending (fst w))
     (step demo_platform with_url
        (Settle (TimerCallback PreFetch) (respond full_text) (demo_now + 2100))
        (logout in_flight_page, [TimerCallback PreFetch])) = Some {2}"
proof -
  let ?L = "logout in_flight_page"
  let ?W = "[TimerCallback PreFetch]"
  let ?evs = "[Settle (TimerCallback PreFetch) Rejected (demo_now + 2100), Call (demo_now + 3000)]"
  note out = logout_clears_record_and_timer
    [OF in_flight_page_fields(1), of demo_platform with_url ?W]
  have failing: "\<not> fetch_succeeds demo_platform Rejected"
    by (simp add: fetch_succeeds_def)
  have quiet: "\<not> list_ex (calls_start demo_platform) ?evs"
    "\<not> list_ex (stores_record demo_platform) ?evs"
    using failing by simp_all
  obtain r1 s1 where res: "getValidAwsCredentials_resume demo_platform Rejected ?L = (r1, s1)"
    by (cases "getValidAwsCredentials_resume demo_platform Rejected ?L")
  have "\<exists>w. run demo_platform with_url ?evs (?L, ?W) = Some w"
    by (cases "getValidAwsCredentials_begin demo_platform with_url (demo_now + 3000)
          (callback_continue demo_platform PreFetch (demo_now + 2100) r1 s1)")
      (simp_all add: step_def res)
  then obtain w where w: "run demo_platform with_url ?evs (?L, ?W) = Some w" ..
  from out have "run demo_platform with_url ?evs (?L, ?W) = Some w \<and>
      \<not> list_ex (calls_start demo_platform) ?evs \<longrightarrow>
        pending (fst w) = {} \<and>
        (\<not> list_ex (stores_record demo_platform) ?evs \<longrightarrow>
           localStorage (fst w) ''awsCredentials'' = None)"
    by blast
  with w quiet have after: "pending (fst w) = {}" "localStorage (fst w) ''awsCredentials'' = None"
    by blast+
  have succeeding: "fetch_succeeds demo_platform (respond full_text)"
    by (simp add: demo_facts fetch_succeeds_def respond_def ok_def full_doc_def)
  from out have "TimerCallback PreFetch \<in> set ?W \<and> fetch_succeeds demo_platform (respond full_text) \<longrightarrow>
      (\<exists>s'. step demo_platform with_url
               (Settle (TimerCallback PreFetch) (respond full_text) (demo_now + 2100)) (?L, ?W) =
             Some (s', remove1 (TimerCallback PreFetch) ?W) \<and>
             pending s' = {next_timer_id in_flight_page})"
    by blast
  with succeeding have rearmed: "map_option (\<lambda>w. pending (fst w))
     (step demo_platform with_url
        (Settle (TimerCallback PreFetch) (respond full_text) (demo_now + 2100)) (?L, ?W)) = Some {2}"
    by (auto simp: in_flight_page_fields)
  from out have first: "localStorage ?L ''awsCredentials'' = None" "pending ?L = {}" by blast+
  from after have quiet_after:
    "map_option (\<lambda>w. pending (fst w)) (run demo_platform with_url ?evs (?L, ?W)) = Some {}"
    "map_option (\<lambda>w. localStorage (fst w) ''awsCredentials'')
       (run demo_platform with_url ?evs (?L, ?W)) = Some None"
    unfolding w by simp_all
  from in_flight_page_fields(1) logout_in_flight_run first quiet_after rearmed show ?thesis
    by blast
qed

text \<open>
  The claim as stated fails for a state with a timer callback's request in flight.  The
  user logs out: the record is deleted and no timer is pending.  Then the request
  succeeds while the page is still there: the record is stored again (and what is
  stored outlives the reload) and timer 2 is pending, with no call of
  \<open>startCredentialRefreshTimer\<close> from outside; and timer 2 fires and makes the second
  network call.
\<close>

theorem logout_in_flight_counterexample:
  "run demo_platform with_url logout_in_flight (fresh_page, []) =
     Some (logout in_flight_page, [TimerCallback PreFetch]) \<and>
   localStorage (logout in_flight_page) ''awsCredentials'' = None \<and>
   pending (logout in_flight_page) = {} \<and>
   network_calls (logout in_flight_page) = 1 \<and>
   map_option (\<lambda>w. localStorage (fst w) ''awsCredentials'')
     (step demo_platform with_url
        (Settle (TimerCallback PreFetch) (respond full_text) (demo_now + 2100))
        (logout in_flight_page, [TimerCallback PreFetch])) = Some (Some full_text) \<and>
   map_option (\<lambda>w. pending (fst w))
     (step demo_platform with_url
        (Settle (TimerCallback PreFetch) (respond full_text) (demo_now + 2100))
        (logout in_flight_page, [TimerCallback PreFetch])) = Some {2} \<and>
   map_option (\<lambda>w. network_calls (fst w))
     (run demo_platform with_url
        [Settle (TimerCallback PreFetch) (respond full_text) (demo_now + 2100),
         Fire 2 (demo_now + 3300000) (demo_now + 3300000)]
        (logout in_flight_page, [TimerCallback PreFetch])) = Some 2"
proof -
  let ?L = "logout in_flight_page"
  let ?r = "Object [(''accessKeyId'', Json (JStr ''ASIAEXAMPLE'')),
                    (''secretAccessKey'', Json (JStr ''secret'')),
                    (''sessionToken'', Json (JStr ''token'')),
                    (''expiration'', DateV (Some 1770003600000))]"
  let ?s4 = "setAwsCredentials demo_platform ?r
               (log (Credentials_obtained ''2026-02-02T03:40:00.000Z'') ?L)"
  let ?s5 = "startCredentialRefreshTimer demo_platform (demo_now + 2100) ?s4"
  have resumed: "getValidAwsCredentials_resume demo_platform (respond full_text) ?L = (Inr ?r, ?s4)"
    by (simp add: demo_facts getValidAwsCredentials_resume_def fetch_response_ok ok_def
        full_doc_def)
  have settle: "step demo_platform with_url
      (Settle (TimerCallback PreFetch) (respond full_text) (demo_now + 2100))
      (?L, [TimerCallback PreFetch]) = Some (?s5, [])"
    by (simp add: step_def resumed callback_continue_def)
  have s4: "localStorage ?s4 ''awsCredentials'' = Some full_text" "timers ?s4 = Map.empty"
    "credentialRefreshTimerId ?s4 = Some 1" "next_timer_id ?s4 = 2" "network_calls ?s4 = 1"
    by (simp_all add: demo_facts setAwsCredentials_def setItem_def log_def logged_out_fields
        List.map_filter_simps)
  have stored: "stored_expiration demo_platform ?s4 = Some (JStr ''2026-02-02T03:40:00.000Z'')"
    by (simp add: demo_facts stored_expiration_def s4(1) full_doc_def field_def)
  have s5: "localStorage ?s5 ''awsCredentials'' = Some full_text" "pending ?s5 = {2}"
    "network_calls ?s5 = 1"
    "timers ?s5 2 = Some \<lparr>delay = Some 3297900, callback = Refresh\<rparr>"
    by (simp_all add: demo_facts startCredentialRefreshTimer_fields
        startCredentialRefreshTimer_timers pending_def s4 stored demo_now_def)
  have fired: "map_option (\<lambda>w. network_calls (fst w))
      (step demo_platform with_url (Fire 2 (demo_now + 3300000) (demo_now + 3300000)) (?s5, [])) =
        Some 2"
    using removed_invalid [of demo_platform "demo_now + 3300000" "clearTimeout 2 ?s5"]
    by (simp add: demo_facts state_facts step_def s5 getValidAwsCredentials_begin_def
        fetch_request_configured)
  have again: "run demo_platform with_url
        [Settle (TimerCallback PreFetch) (respond full_text) (demo_now + 2100),
         Fire 2 (demo_now + 3300000) (demo_now + 3300000)]
        (?L, [TimerCallback PreFetch]) =
      step demo_platform with_url (Fire 2 (demo_now + 3300000) (demo_now + 3300000)) (?s5, [])"
    by (simp add: settle split: option.splits)
  have before: "localStorage ?L ''awsCredentials'' = None" "pending ?L = {}"
    "network_calls ?L = 1"
    by (simp_all add: logged_out_fields pending_def)
  have after: "map_option (\<lambda>w. localStorage (fst w) ''awsCredentials'')
      (step demo_platform with_url
        (Settle (TimerCallback PreFetch) (respond full_text) (demo_now + 2100))
        (?L, [TimerCallback PreFetch])) = Some (Some full_text)"
    "map_option (\<lambda>w. pending (fst w))
      (step demo_platform with_url
        (Settle (TimerCallback PreFetch) (respond full_text) (demo_now + 2100))
        (?L, [TimerCallback PreFetch])) = Some {2}"
    unfolding settle by (simp_all add: s5)
  from fired have last: "map_option (\<lambda>w. network_calls (fst w))
     (run demo_platform with_url
        [Settle (TimerCallback PreFetch) (respond full_text) (demo_now + 2100),
         Fire 2 (demo_now + 3300000) (demo_now + 3300000)]
        (?L, [TimerCallback PreFetch])) = Some 2"
    unfolding again .
  from logout_in_flight_run before after last show ?thesis
    by blast
qed

end
